theory Spec2Isabelle
  imports Main "HOL-Library.Sublist"
begin

section \<open>JavaScript strings and containers\<close>

text \<open>
  Strings are lists of characters. The model covers ASCII text: \<open>toLowerCase\<close> folds
  the letters A to Z only and \<open>\s\<close> is the ASCII white space
  (tab, line feed, vertical tab, form feed, carriage return, space).
\<close>

fun startsWith :: "string \<Rightarrow> string \<Rightarrow> bool" where
  "startsWith s [] = True"
| "startsWith [] (c # t) = False"
| "startsWith (a # s) (c # t) = (a = c \<and> startsWith s t)"

text \<open>\<open>s.includes(t)\<close>: \<open>t\<close> occurs in \<open>s\<close> as a contiguous run.\<close>

fun str_includes :: "string \<Rightarrow> string \<Rightarrow> bool" where
  "str_includes [] t = (t = [])"
| "str_includes (a # s) t = (startsWith (a # s) t \<or> str_includes s t)"

definition endsWith :: "string \<Rightarrow> string \<Rightarrow> bool" where
  "endsWith s t = startsWith (rev s) (rev t)"

definition toLowerCase_char :: "char \<Rightarrow> char" where
  "toLowerCase_char c =
     (case map_of (zip ''ABCDEFGHIJKLMNOPQRSTUVWXYZ'' ''abcdefghijklmnopqrstuvwxyz'') c of
        Some d \<Rightarrow> d
      | None \<Rightarrow> c)"

definition toLowerCase :: "string \<Rightarrow> string" where
  "toLowerCase s = map toLowerCase_char s"

definition is_space :: "char \<Rightarrow> bool" where
  "is_space c = (c \<in> set [CHR 0x09, CHR 0x0A, CHR 0x0B, CHR 0x0C, CHR 0x0D, CHR '' ''])"

definition trim :: "string \<Rightarrow> string" where
  "trim s = rev (dropWhile is_space (rev (dropWhile is_space s)))"

text \<open>
  \<open>s.split(sep)\<close> for a non-empty separator string: the pieces between the
  occurrences of \<open>sep\<close>, found from the left; the result is never empty
  (\<open>''''.split('':'')\<close> is \<open>['''']\<close>).
\<close>

function split_from :: "string \<Rightarrow> string \<Rightarrow> string \<Rightarrow> string list" where
  "split_from sep acc s =
     (if s = [] then [rev acc]
      else if sep \<noteq> [] \<and> startsWith s sep
        then rev acc # split_from sep [] (drop (length sep) s)
      else split_from sep (hd s # acc) (tl s))"
  by pat_completeness auto
termination
  by (relation "measure (\<lambda>(sep, acc, s). length s)") auto

definition split :: "string \<Rightarrow> string \<Rightarrow> string list" where
  "split s sep = split_from sep [] s"

text \<open>
  \<open>s.split(/\s+/)\<close>: the pieces between the maximal runs of white space. A run at
  the start or at the end of \<open>s\<close> leaves an empty piece there, and the empty string
  gives one empty piece.
\<close>

function split_ws_from :: "string \<Rightarrow> string \<Rightarrow> string list" where
  "split_ws_from acc [] = [rev acc]"
| "split_ws_from acc (c # s) =
     (if is_space c then rev acc # split_ws_from [] (dropWhile is_space s)
      else split_ws_from (c # acc) s)"
  by pat_completeness auto
termination
  by (relation "measure (\<lambda>(acc, s). length s)") (auto simp: length_dropWhile_le le_imp_less_Suc)

definition split_ws :: "string \<Rightarrow> string list" where
  "split_ws s = split_ws_from [] s"

text \<open>\<open>parts.join(sep)\<close>.\<close>

fun join :: "string list \<Rightarrow> string \<Rightarrow> string" where
  "join [] sep = []"
| "join [p] sep = p"
| "join (p # q # ps) sep = p @ sep @ join (q # ps) sep"

text \<open>
  \<open>xs.slice(0, n)\<close> for an integer \<open>n\<close>: a negative end counts from the end of
  the array.
\<close>

definition slice0 :: "'a list \<Rightarrow> int \<Rightarrow> 'a list" where
  "slice0 xs n = (if n < 0 then take (nat (int (length xs) + n)) xs else take (nat n) xs)"

text \<open>
  \<open>String(n)\<close> for an integer \<open>n\<close> (below the magnitude where JavaScript switches
  to exponent notation).
\<close>

fun string_of_nat :: "nat \<Rightarrow> string" where
  "string_of_nat n =
     (if n < 10 then [''0123456789'' ! n]
      else string_of_nat (n div 10) @ [''0123456789'' ! (n mod 10)])"

definition string_of_int :: "int \<Rightarrow> string" where
  "string_of_int i = (if i < 0 then CHR ''-'' # string_of_nat (nat (- i)) else string_of_nat (nat i))"

text \<open>
  A JavaScript \<open>Map\<close> keeps its keys in the order of their first insertion: \<open>set\<close> on
  a present key replaces the value in place, \<open>set\<close> on a new key appends.
\<close>

type_synonym ('k, 'v) js_Map = "('k \<times> 'v) list"

fun Map_set :: "'k \<Rightarrow> 'v \<Rightarrow> ('k, 'v) js_Map \<Rightarrow> ('k, 'v) js_Map" where
  "Map_set k v [] = [(k, v)]"
| "Map_set k v (p # ps) = (if fst p = k then (k, v) # ps else p # Map_set k v ps)"

definition Map_get :: "('k, 'v) js_Map \<Rightarrow> 'k \<Rightarrow> 'v option" where
  "Map_get m k = map_of m k"

definition Map_delete :: "'k \<Rightarrow> ('k, 'v) js_Map \<Rightarrow> ('k, 'v) js_Map" where
  "Map_delete k m = filter (\<lambda>p. fst p \<noteq> k) m"

text \<open>\<open>m.keys().next().value\<close>: the first key, \<open>undefined\<close> on an empty map.\<close>

definition Map_first_key :: "('k, 'v) js_Map \<Rightarrow> 'k option" where
  "Map_first_key m = (case m of [] \<Rightarrow> None | p # _ \<Rightarrow> Some (fst p))"


section \<open>The cache (cache.ts)\<close>

record 'v CacheEntry =
  data :: 'v
  timestamp :: int
  ttl :: int

record CacheOptions =
  options_ttl :: int
  maxSize :: int

text \<open>
  The state of a \<open>CacheManager\<close>: the private \<open>Map\<close> and the options. Times are
  integer milliseconds; \<open>now\<close> is what \<open>Date.now()\<close> returns during the call.
\<close>

record 'v CacheManager =
  cache :: "(string, 'v CacheEntry) js_Map"
  options :: CacheOptions

definition new_CacheManager :: "CacheOptions \<Rightarrow> 'v CacheManager" where
  "new_CacheManager opts = \<lparr>cache = [], options = opts\<rparr>"

text \<open>
  \<open>get\<close> returns the value (\<open>None\<close> is JavaScript's \<open>null\<close>) and the cache after the
  call. No statement of \<open>get\<close> can throw, so the result has no error part.
\<close>

definition cache_get :: "'v CacheManager \<Rightarrow> int \<Rightarrow> string \<Rightarrow> 'v option \<times> 'v CacheManager" where
  "cache_get cm now key =
     (case Map_get (cache cm) key of
        None \<Rightarrow> (None, cm)
      | Some entry \<Rightarrow>
          if now - timestamp entry > ttl entry
          then (None, cm\<lparr>cache := Map_delete key (cache cm)\<rparr>)
          else (Some (data entry), cm))"

text \<open>
  \<open>set\<close>: the guard \<open>if (oldestKey)\<close> is a truthiness test, so it fails for
  \<open>undefined\<close> (empty map) and also for the empty string.
\<close>

definition cache_set :: "'v CacheManager \<Rightarrow> int \<Rightarrow> string \<Rightarrow> 'v \<Rightarrow> int option \<Rightarrow> 'v CacheManager" where
  "cache_set cm now key val customTtl =
     (let evicted =
            (if int (length (cache cm)) \<ge> maxSize (options cm)
             then (case Map_first_key (cache cm) of
                     None \<Rightarrow> cache cm
                   | Some oldestKey \<Rightarrow>
                       if oldestKey \<noteq> [] then Map_delete oldestKey (cache cm) else cache cm)
             else cache cm);
          entry = \<lparr>data = val, timestamp = now,
                   ttl = (case customTtl of Some t \<Rightarrow> t | None \<Rightarrow> options_ttl (options cm))\<rparr>
      in cm\<lparr>cache := Map_set key entry evicted\<rparr>)"

definition cache_has :: "'v CacheManager \<Rightarrow> int \<Rightarrow> string \<Rightarrow> bool \<times> 'v CacheManager" where
  "cache_has cm now key = (case cache_get cm now key of (r, cm') \<Rightarrow> (r \<noteq> None, cm'))"

definition cache_delete :: "'v CacheManager \<Rightarrow> string \<Rightarrow> bool \<times> 'v CacheManager" where
  "cache_delete cm key =
     (Map_get (cache cm) key \<noteq> None, cm\<lparr>cache := Map_delete key (cache cm)\<rparr>)"

definition cache_clear :: "'v CacheManager \<Rightarrow> 'v CacheManager" where
  "cache_clear cm = cm\<lparr>cache := []\<rparr>"

definition cleanup :: "'v CacheManager \<Rightarrow> int \<Rightarrow> 'v CacheManager" where
  "cleanup cm now =
     (let keysToDelete = map fst (filter (\<lambda>(key, entry). now - timestamp entry > ttl entry) (cache cm))
      in cm\<lparr>cache := fold Map_delete keysToDelete (cache cm)\<rparr>)"

definition cache_size :: "'v CacheManager \<Rightarrow> nat" where
  "cache_size cm = length (cache cm)"

text \<open>
  The parts handed to \<open>generateKey\<close>: a string, a number, a boolean or \<open>undefined\<close>.
\<close>

datatype key_part = PStr string | PNum int | PBool bool | PUndefined

fun String_of_part :: "key_part \<Rightarrow> string" where
  "String_of_part (PStr s) = s"
| "String_of_part (PNum n) = string_of_int n"
| "String_of_part (PBool b) = (if b then ''true'' else ''false'')"
| "String_of_part PUndefined = ''undefined''"

definition generateKey :: "key_part list \<Rightarrow> string" where
  "generateKey parts = join (map String_of_part (filter (\<lambda>part. part \<noteq> PUndefined) parts)) '':''"

text \<open>An optional string field of an input object, as a key part.\<close>

definition opt_part :: "string option \<Rightarrow> key_part" where
  "opt_part x = (case x of None \<Rightarrow> PUndefined | Some s \<Rightarrow> PStr s)"

text \<open>
  A sequence of calls on one cache, each at its own clock reading.
\<close>

datatype 'v cache_op =
    Get int string
  | Set int string 'v "int option"
  | Has int string
  | Delete string
  | Clear
  | Cleanup int

fun apply_cache_op :: "'v CacheManager \<Rightarrow> 'v cache_op \<Rightarrow> 'v CacheManager" where
  "apply_cache_op cm (Get now key) = snd (cache_get cm now key)"
| "apply_cache_op cm (Set now key val customTtl) = cache_set cm now key val customTtl"
| "apply_cache_op cm (Has now key) = snd (cache_has cm now key)"
| "apply_cache_op cm (Delete key) = snd (cache_delete cm key)"
| "apply_cache_op cm Clear = cache_clear cm"
| "apply_cache_op cm (Cleanup now) = cleanup cm now"

definition run_cache_ops :: "'v CacheManager \<Rightarrow> 'v cache_op list \<Rightarrow> 'v CacheManager" where
  "run_cache_ops cm ops = foldl apply_cache_op cm ops"

fun set_key_of :: "'v cache_op \<Rightarrow> string option" where
  "set_key_of (Set now key val customTtl) = Some key"
| "set_key_of _ = None"

text \<open>
  The state that \<open>set\<close> keeps when every key is non-empty: keys are distinct, none is
  empty, and there are at most \<open>maxSize\<close> entries.
\<close>

definition cache_inv :: "'v CacheManager \<Rightarrow> bool" where
  "cache_inv cm \<longleftrightarrow> distinct (map fst (cache cm)) \<and> [] \<notin> set (map fst (cache cm))
      \<and> int (length (cache cm)) \<le> maxSize (options cm)"

text \<open>A small cache used to illustrate \<open>get\<close>: one entry made at time 1000, living 500 ms.\<close>

definition example_cache :: "nat CacheManager" where
  "example_cache =
     \<lparr>cache = [(''k'', \<lparr>data = 7, timestamp = 1000, ttl = 500\<rparr>)],
      options = \<lparr>options_ttl = 500, maxSize = 10\<rparr>\<rparr>"

section \<open>Result types (types.ts)\<close>

text \<open>
  \<open>PackageInfo\<close>. An optional field is an \<open>option\<close>. \<open>exports\<close> keeps the keys of the
  manifest's exports record (its values are never read). The last two fields are the
  ones \<open>enhancePackageInfo\<close> adds to the object at run time.
\<close>

record PackageInfo =
  pkg_name :: string
  pkg_version :: string
  pkg_description :: "string option"
  pkg_main :: "string option"
  pkg_types :: "string option"
  pkg_exports :: "string list option"
  pkg_dependencies :: "(string \<times> string) list option"
  pkg_devDependencies :: "(string \<times> string) list option"
  pkg_installed :: bool
  pkg_path :: "string option"
  pkg_category :: "string option"
  pkg_semanticScore :: "int option"

text \<open>The object literal \<open>{name, version, installed}\<close> with every other field absent.\<close>

definition plain_package :: "string \<Rightarrow> string \<Rightarrow> bool \<Rightarrow> PackageInfo" where
  "plain_package n v i =
     \<lparr>pkg_name = n, pkg_version = v, pkg_description = None, pkg_main = None,
      pkg_types = None, pkg_exports = None, pkg_dependencies = None,
      pkg_devDependencies = None, pkg_installed = i, pkg_path = None,
      pkg_category = None, pkg_semanticScore = None\<rparr>"


section \<open>The relevance scorer (utils/semantic-search.ts)\<close>

definition ui_keywords :: "string list" where
  "ui_keywords =
     [''react'', ''vue'', ''angular'', ''component'', ''ui'', ''interface'', ''design'',
      ''styled'', ''css'', ''bootstrap'', ''material'', ''antd'', ''chakra'', ''semantic'',
      ''tailwind'', ''theme'', ''layout'', ''grid'', ''flex'', ''button'', ''form'',
      ''input'', ''modal'', ''dropdown'', ''menu'', ''navigation'', ''chart'', ''graph'',
      ''visualization'', ''datepicker'', ''calendar'', ''slider'', ''tooltip'', ''popover'',
      ''toast'', ''notification'', ''animation'', ''transition'', ''icon'', ''image'',
      ''gallery'', ''carousel'', ''slider'', ''accordion'', ''tabs'', ''pagination'',
      ''table'', ''grid'', ''list'']"

definition data_keywords :: "string list" where
  "data_keywords =
     [''database'', ''sql'', ''nosql'', ''mongodb'', ''postgres'', ''mysql'', ''redis'',
      ''orm'', ''query'', ''schema'', ''migration'', ''json'', ''xml'', ''csv'', ''parser'',
      ''serialization'', ''validation'', ''transform'', ''filter'', ''sort'', ''aggregate'',
      ''cache'', ''storage'', ''persistence'', ''indexing'', ''search'', ''elasticsearch'',
      ''solr'', ''lucene'', ''analytics'', ''metrics'', ''logging'', ''monitoring'',
      ''backup'', ''sync'', ''replication'']"

definition network_keywords :: "string list" where
  "network_keywords =
     [''http'', ''https'', ''request'', ''client'', ''server'', ''api'', ''rest'',
      ''graphql'', ''websocket'', ''socket'', ''tcp'', ''udp'', ''proxy'', ''middleware'',
      ''cors'', ''auth'', ''jwt'', ''oauth'', ''session'', ''cookie'', ''express'', ''koa'',
      ''fastify'', ''hapi'', ''nest'', ''apollo'', ''axios'', ''fetch'', ''superagent'',
      ''request'', ''curl'', ''download'', ''upload'', ''stream'', ''chunk'', ''compress'',
      ''gzip'', ''deflate'', ''ssl'', ''tls'', ''certificate'', ''encryption'', ''security'']"

definition testing_keywords :: "string list" where
  "testing_keywords =
     [''test'', ''testing'', ''jest'', ''mocha'', ''chai'', ''jasmine'', ''karma'',
      ''cypress'', ''selenium'', ''playwright'', ''puppeteer'', ''mock'', ''stub'', ''spy'',
      ''fixture'', ''assertion'', ''expect'', ''should'', ''coverage'', ''benchmark'',
      ''performance'', ''load'', ''stress'', ''unit'', ''integration'', ''e2e'',
      ''snapshot'', ''runner'', ''framework'', ''suite'', ''spec'', ''describe'', ''it'',
      ''before'', ''after'', ''setup'', ''teardown'']"

definition build_keywords :: "string list" where
  "build_keywords =
     [''build'', ''webpack'', ''rollup'', ''vite'', ''parcel'', ''babel'', ''typescript'',
      ''compiler'', ''transpiler'', ''bundler'', ''minify'', ''optimize'', ''uglify'',
      ''terser'', ''postcss'', ''sass'', ''less'', ''stylus'', ''plugin'', ''loader'',
      ''preset'', ''config'', ''eslint'', ''prettier'', ''lint'', ''format'', ''gulp'',
      ''grunt'', ''task'', ''runner'', ''deploy'', ''ci'', ''cd'', ''github'', ''actions'',
      ''jenkins'', ''travis'', ''circle'']"

definition utility_keywords :: "string list" where
  "utility_keywords =
     [''util'', ''helper'', ''lodash'', ''underscore'', ''ramda'', ''moment'', ''date'',
      ''time'', ''format'', ''parse'', ''string'', ''number'', ''math'', ''crypto'',
      ''hash'', ''uuid'', ''guid'', ''random'', ''color'', ''path'', ''file'', ''directory'',
      ''fs'', ''stream'', ''buffer'', ''array'', ''object'', ''collection'', ''functional'',
      ''promise'', ''async'', ''await'', ''throttle'', ''debounce'', ''retry'', ''queue'',
      ''stack'', ''tree'', ''graph'', ''algorithm'', ''sort'', ''search'', ''binary'',
      ''regex'', ''pattern'', ''match'']"

definition FUNCTIONALITY_MAPPINGS :: "(string \<times> string list) list" where
  "FUNCTIONALITY_MAPPINGS =
     [(''http client'', [''axios'', ''node-fetch'', ''superagent'', ''got'', ''request'']),
      (''http server'', [''express'', ''koa'', ''fastify'', ''hapi'', ''nest'']),
      (''api testing'', [''supertest'', ''nock'', ''msw'', ''jest'']),
      (''websocket'', [''ws'', ''socket.io'', ''socketio'']),
      (''graphql'', [''graphql'', ''apollo-server'', ''apollo-client'', ''relay'']),
      (''database'', [''mongoose'', ''sequelize'', ''typeorm'', ''prisma'', ''knex'']),
      (''mongodb'', [''mongoose'', ''mongodb'']),
      (''postgresql'', [''pg'', ''sequelize'', ''typeorm'', ''prisma'']),
      (''mysql'', [''mysql'', ''mysql2'', ''sequelize'', ''typeorm'']),
      (''redis'', [''redis'', ''ioredis'']),
      (''orm'', [''sequelize'', ''typeorm'', ''prisma'', ''objection'']),
      (''react'', [''react'', ''react-dom'', ''react-router'', ''react-redux'', ''styled-components'']),
      (''vue'', [''vue'', ''vue-router'', ''vuex'', ''nuxt'']),
      (''angular'', [''@angular/core'', ''@angular/common'', ''@angular/router'']),
      (''ui components'', [''antd'', ''material-ui'', ''chakra-ui'', ''semantic-ui-react'']),
      (''styling'', [''styled-components'', ''emotion'', ''tailwindcss'', ''bootstrap'']),
      (''animation'', [''framer-motion'', ''react-spring'', ''lottie-react'', ''gsap'']),
      (''charts'', [''chart.js'', ''recharts'', ''d3'', ''plotly.js'']),
      (''testing'', [''jest'', ''mocha'', ''chai'', ''jasmine'', ''vitest'']),
      (''e2e testing'', [''cypress'', ''playwright'', ''puppeteer'', ''selenium-webdriver'']),
      (''mocking'', [''jest'', ''sinon'', ''msw'', ''nock'']),
      (''bundling'', [''webpack'', ''rollup'', ''vite'', ''parcel'', ''esbuild'']),
      (''transpiling'', [''babel'', ''typescript'', ''swc'']),
      (''linting'', [''eslint'', ''prettier'', ''jshint'', ''tslint'']),
      (''task runner'', [''gulp'', ''grunt'', ''npm-run-all'']),
      (''date handling'', [''moment'', ''date-fns'', ''dayjs'', ''luxon'']),
      (''validation'', [''joi'', ''yup'', ''zod'', ''ajv'']),
      (''logging'', [''winston'', ''pino'', ''bunyan'', ''debug'']),
      (''utilities'', [''lodash'', ''underscore'', ''ramda'', ''rxjs'']),
      (''file processing'', [''fs-extra'', ''glob'', ''chokidar'', ''sharp'']),
      (''crypto'', [''crypto-js'', ''bcrypt'', ''jsonwebtoken'', ''uuid'']),
      (''process management'', [''pm2'', ''forever'', ''nodemon'', ''concurrently'']),
      (''json'', [''json5'', ''hjson'', ''jsonpath'', ''fast-json-stringify'']),
      (''xml'', [''xml2js'', ''fast-xml-parser'', ''xmldom'']),
      (''csv'', [''csv-parser'', ''fast-csv'', ''papaparse'']),
      (''yaml'', [''js-yaml'', ''yaml''])]"

record CategoryInfo =
  keywords' :: "string list"
  weight :: int

text \<open>
  \<open>PACKAGE_CATEGORIES\<close>, in the order \<open>Object.entries\<close> lists it. Every weight is
  \<open>1.0\<close> in the source; scores are whole numbers.
\<close>

definition PACKAGE_CATEGORIES :: "(string \<times> CategoryInfo) list" where
  "PACKAGE_CATEGORIES =
     [(''ui'', \<lparr>keywords' = ui_keywords, weight = 1\<rparr>),
      (''data'', \<lparr>keywords' = data_keywords, weight = 1\<rparr>),
      (''network'', \<lparr>keywords' = network_keywords, weight = 1\<rparr>),
      (''testing'', \<lparr>keywords' = testing_keywords, weight = 1\<rparr>),
      (''build'', \<lparr>keywords' = build_keywords, weight = 1\<rparr>),
      (''utility'', \<lparr>keywords' = utility_keywords, weight = 1\<rparr>)]"

text \<open>\<open>x || ''''\<close> for an optional string.\<close>

definition or_empty :: "string option \<Rightarrow> string" where
  "or_empty x = (case x of None \<Rightarrow> [] | Some s \<Rightarrow> s)"

text \<open>
  \<open>calculateSemanticScore\<close>: the variable \<open>score\<close> is updated statement by statement.
  Each \<open>forEach\<close> is a left fold that carries \<open>score\<close> through its callback; the three
  callbacks come first.
\<close>

definition forEach_queryWord :: "string \<Rightarrow> string list \<Rightarrow> int \<Rightarrow> string \<Rightarrow> int" where
  "forEach_queryWord packageName descriptionWords score queryWord =
     (let score = (if str_includes packageName queryWord then score + 30 else score)
      in (if list_ex (\<lambda>word. str_includes word queryWord) descriptionWords
          then score + 20 else score))"

definition forEach_category ::
    "string \<Rightarrow> string \<Rightarrow> string \<Rightarrow> int \<Rightarrow> string \<times> CategoryInfo \<Rightarrow> int" where
  "forEach_category queryLower packageName description score =
     (\<lambda>(category, categoryInfo).
        let matchingKeywords =
              filter (\<lambda>keyword. str_includes queryLower keyword
                         \<or> str_includes packageName keyword
                         \<or> str_includes description keyword)
                (keywords' categoryInfo)
        in (if length matchingKeywords > 0
            then score + int (length matchingKeywords) * 10 * weight categoryInfo
            else score))"

definition forEach_functionality :: "string \<Rightarrow> string \<Rightarrow> int \<Rightarrow> string \<times> string list \<Rightarrow> int" where
  "forEach_functionality queryLower packageName score =
     (\<lambda>(functionality, packages).
        if str_includes queryLower functionality
        then (if packageName \<in> set packages then score + 40 else score)
        else score)"

definition calculateSemanticScore :: "string \<Rightarrow> PackageInfo \<Rightarrow> int" where
  "calculateSemanticScore query packageInfo =
     (let queryLower = toLowerCase query;
          packageName = toLowerCase (pkg_name packageInfo);
          description = toLowerCase (or_empty (pkg_description packageInfo));
          score = 0;
          score = (if packageName = queryLower then score + 100 else score);
          score = (if str_includes packageName queryLower \<or> str_includes queryLower packageName
                   then score + 50 else score);
          queryWords = split_ws queryLower;
          descriptionWords = split_ws description;
          score = foldl (forEach_queryWord packageName descriptionWords) score queryWords;
          score = foldl (forEach_category queryLower packageName description) score PACKAGE_CATEGORIES;
          score = foldl (forEach_functionality queryLower packageName) score FUNCTIONALITY_MAPPINGS
      in score)"

text \<open>
  The additive formula of the specification, written as a sum of its five terms over the
  lowercased query, name and description.
\<close>

definition exact_name_term :: "string \<Rightarrow> string \<Rightarrow> int" where
  "exact_name_term q n = (if n = q then 100 else 0)"

definition partial_name_term :: "string \<Rightarrow> string \<Rightarrow> int" where
  "partial_name_term q n = (if str_includes n q \<or> str_includes q n then 50 else 0)"

definition query_word_term :: "string \<Rightarrow> string \<Rightarrow> string \<Rightarrow> int" where
  "query_word_term n d w =
     (if str_includes n w then 30 else 0)
     + (if (\<exists>dw \<in> set (split_ws d). str_includes dw w) then 20 else 0)"

definition matchingKeywordCount :: "string \<Rightarrow> string \<Rightarrow> string \<Rightarrow> string list \<Rightarrow> nat" where
  "matchingKeywordCount q n d kws =
     length (filter (\<lambda>k. str_includes q k \<or> str_includes n k \<or> str_includes d k) kws)"

definition category_term :: "string \<Rightarrow> string \<Rightarrow> string \<Rightarrow> CategoryInfo \<Rightarrow> int" where
  "category_term q n d c = int (matchingKeywordCount q n d (keywords' c)) * 10 * weight c"

definition functionality_term :: "string \<Rightarrow> string \<Rightarrow> string \<times> string list \<Rightarrow> int" where
  "functionality_term q n row =
     (if str_includes q (fst row) \<and> n \<in> set (snd row) then 40 else 0)"

definition reference_score :: "string \<Rightarrow> PackageInfo \<Rightarrow> int" where
  "reference_score query record =
     (let q = toLowerCase query;
          n = toLowerCase (pkg_name record);
          d = toLowerCase (or_empty (pkg_description record))
      in exact_name_term q n
         + partial_name_term q n
         + sum_list (map (query_word_term n d) (split_ws q))
         + sum_list (map (\<lambda>(c, info). category_term q n d info) PACKAGE_CATEGORIES)
         + sum_list (map (functionality_term q n) FUNCTIONALITY_MAPPINGS))"

text \<open>
  \<open>Array.prototype.sort\<close> with a comparator is stable: \<open>a\<close> goes before \<open>b\<close> when
  \<open>compare(a, b) < 0\<close>, and equal elements keep their order.
\<close>

fun sort_insert :: "('a \<Rightarrow> 'a \<Rightarrow> int) \<Rightarrow> 'a \<Rightarrow> 'a list \<Rightarrow> 'a list" where
  "sort_insert compare x [] = [x]"
| "sort_insert compare x (y # ys) =
     (if compare x y \<le> 0 then x # y # ys else y # sort_insert compare x ys)"

definition js_sort :: "('a \<Rightarrow> 'a \<Rightarrow> int) \<Rightarrow> 'a list \<Rightarrow> 'a list" where
  "js_sort compare xs = foldr (sort_insert compare) xs []"

text \<open>
  \<open>PACKAGE_CATEGORIES[category]?.keywords || []\<close>.
\<close>

definition category_keywords :: "string \<Rightarrow> string list" where
  "category_keywords c = (case map_of PACKAGE_CATEGORIES c of Some info \<Rightarrow> keywords' info | None \<Rightarrow> [])"

definition searchPackagesSemanticaly ::
    "string \<Rightarrow> PackageInfo list \<Rightarrow> string \<Rightarrow> int \<Rightarrow> PackageInfo list" where
  "searchPackagesSemanticaly query packages category maxResults =
     (let scoredPackages = map (\<lambda>pkg. (pkg, calculateSemanticScore query pkg)) packages;
          filteredPackages =
            (if category \<noteq> ''all''
             then (let categoryKeywords = category_keywords category
                   in filter (\<lambda>(pkg, score).
                        let packageName = toLowerCase (pkg_name pkg);
                            description = toLowerCase (or_empty (pkg_description pkg))
                        in list_ex (\<lambda>keyword. str_includes packageName keyword
                                       \<or> str_includes description keyword) categoryKeywords)
                      scoredPackages)
             else scoredPackages)
      in map fst
           (slice0 (js_sort (\<lambda>a b. snd b - snd a) (filter (\<lambda>(pkg, score). score > 0) filteredPackages))
              maxResults))"

definition categorizePackage :: "PackageInfo \<Rightarrow> string" where
  "categorizePackage packageInfo =
     (let packageName = toLowerCase (pkg_name packageInfo);
          description = toLowerCase (or_empty (pkg_description packageInfo))
      in fst (foldl (\<lambda>(bestCategory, bestScore) (category, categoryInfo).
                 let score = foldl (\<lambda>acc keyword.
                               let acc = (if str_includes packageName keyword then acc + 2 else acc)
                               in (if str_includes description keyword then acc + 1 else acc))
                             (0::int) (keywords' categoryInfo)
                 in (if score > bestScore then (category, score) else (bestCategory, bestScore)))
               (''utility'', 0) PACKAGE_CATEGORIES))"

text \<open>
  \<open>enhancePackageInfo(packageInfo, query)\<close>: the score is added only when \<open>query\<close> is
  truthy, that is, not the empty string.
\<close>

definition enhancePackageInfo :: "PackageInfo \<Rightarrow> string \<Rightarrow> PackageInfo" where
  "enhancePackageInfo packageInfo query =
     (let category = categorizePackage packageInfo;
          semanticScore = (if query \<noteq> [] then Some (calculateSemanticScore query packageInfo) else None)
      in (case semanticScore of
            None \<Rightarrow> packageInfo\<lparr>pkg_category := Some category\<rparr>
          | Some s \<Rightarrow> packageInfo\<lparr>pkg_category := Some category, pkg_semanticScore := Some s\<rparr>))"

section \<open>Regular expressions as the engines use them\<close>

text \<open>
  The extractors call \<open>String.prototype.match\<close> with regular-expression literals. The
  fragment they use is modelled here with JavaScript's backtracking order: a quantifier is
  greedy, alternatives are tried from the longest repetition down, and the first way to
  match the whole pattern wins. A state is the offset in the subject string, the rest of
  the subject from there, and the texts of the capture groups closed so far.
\<close>

datatype re =
    Chr "char \<Rightarrow> bool"
  | Lit string
  | Seq re re
  | Alt re re
  | Star re
  | Plus re
  | LazyStar re
  | Cap re
  | Bol
  | Eol

type_synonym re_state = "nat \<times> string \<times> string list"

text \<open>
  Repetition: each round must consume input, so the length of the rest bounds the number
  of rounds. The longest repetition comes first, the empty one last.
\<close>

fun star_iter :: "(re_state \<Rightarrow> re_state list) \<Rightarrow> nat \<Rightarrow> re_state \<Rightarrow> re_state list" where
  "star_iter step 0 st = [st]"
| "star_iter step (Suc fuel) st =
     concat (map (star_iter step fuel)
               (filter (\<lambda>st'. length (fst (snd st')) < length (fst (snd st))) (step st)))
     @ [st]"

text \<open>The lazy star \<open>r*?\<close> tries the empty repetition first.\<close>

fun lazy_iter :: "(re_state \<Rightarrow> re_state list) \<Rightarrow> nat \<Rightarrow> re_state \<Rightarrow> re_state list" where
  "lazy_iter step 0 st = [st]"
| "lazy_iter step (Suc fuel) st =
     st # concat (map (lazy_iter step fuel)
                    (filter (\<lambda>st'. length (fst (snd st')) < length (fst (snd st))) (step st)))"

primrec re_match :: "re \<Rightarrow> re_state \<Rightarrow> re_state list" where
  "re_match (Chr p) st =
     (case fst (snd st) of
        [] \<Rightarrow> []
      | c # cs \<Rightarrow> if p c then [(Suc (fst st), cs, snd (snd st))] else [])"
| "re_match (Lit s) st =
     (if startsWith (fst (snd st)) s
      then [(fst st + length s, drop (length s) (fst (snd st)), snd (snd st))]
      else [])"
| "re_match (Seq a b) st = concat (map (re_match b) (re_match a st))"
| "re_match (Alt a b) st = re_match a st @ re_match b st"
| "re_match (Star r) st = star_iter (re_match r) (length (fst (snd st))) st"
| "re_match (Plus r) st =
     concat (map (\<lambda>st'. star_iter (re_match r) (length (fst (snd st'))) st') (re_match r st))"
| "re_match (LazyStar r) st = lazy_iter (re_match r) (length (fst (snd st))) st"
| "re_match (Cap r) st =
     map (\<lambda>st'. (fst st', fst (snd st'), snd (snd st') @ [take (fst st' - fst st) (fst (snd st))]))
       (re_match r st)"
| "re_match Bol st = (if fst st = 0 then [st] else [])"
| "re_match Eol st = (if fst (snd st) = [] then [st] else [])"

text \<open>
  The leftmost match from offset \<open>pos\<close> on: where it starts, where it ends, and its
  capture groups.
\<close>

fun re_search :: "re \<Rightarrow> nat \<Rightarrow> string \<Rightarrow> (nat \<times> nat \<times> string list) option" where
  "re_search r pos [] =
     (case re_match r (pos, [], []) of
        st # _ \<Rightarrow> Some (pos, fst st, snd (snd st))
      | [] \<Rightarrow> None)"
| "re_search r pos (c # s) =
     (case re_match r (pos, c # s, []) of
        st # _ \<Rightarrow> Some (pos, fst st, snd (snd st))
      | [] \<Rightarrow> re_search r (Suc pos) s)"

text \<open>
  \<open>s.match(r)\<close> without the global flag: the capture groups (\<open>match[1]\<close>,
  \<open>match[2]\<close>, ...) of the leftmost match, or \<open>None\<close> for \<open>null\<close>.
\<close>

definition str_match :: "string \<Rightarrow> re \<Rightarrow> string list option" where
  "str_match s r = map_option (\<lambda>m. snd (snd m)) (re_search r 0 s)"

text \<open>
  \<open>s.match(r)\<close> with the global flag: the texts of the successive matches, each search
  starting where the last match ended (one further after an empty match).
\<close>

fun match_all_from :: "re \<Rightarrow> string \<Rightarrow> nat \<Rightarrow> nat \<Rightarrow> string list" where
  "match_all_from r s 0 pos = []"
| "match_all_from r s (Suc fuel) pos =
     (if pos > length s then []
      else (case re_search r pos (drop pos s) of
              None \<Rightarrow> []
            | Some m \<Rightarrow>
                take (fst (snd m) - fst m) (drop (fst m) s)
                # match_all_from r s fuel (if fst (snd m) = fst m then Suc (fst (snd m)) else fst (snd m))))"

definition str_match_all :: "string \<Rightarrow> re \<Rightarrow> string list" where
  "str_match_all s r = match_all_from r s (Suc (length s)) 0"

fun seq :: "re list \<Rightarrow> re" where
  "seq [] = Lit []"
| "seq [r] = r"
| "seq (r # rs) = Seq r (seq rs)"

fun alt :: "re list \<Rightarrow> re" where
  "alt [] = Chr (\<lambda>c. False)"
| "alt [r] = r"
| "alt (r # rs) = Alt r (alt rs)"

text \<open>The character classes of the patterns.\<close>

definition ws :: re where
  "ws = Chr is_space"

definition any_char :: re where
  "any_char = Chr (\<lambda>c. c \<notin> set [CHR 0x0A, CHR 0x0D])"

definition any_char_or_newline :: re where
  "any_char_or_newline = Chr (\<lambda>c. True)"

definition non_space :: re where
  "non_space = Chr (\<lambda>c. \<not> is_space c)"

definition none_of :: "string \<Rightarrow> re" where
  "none_of cs = Chr (\<lambda>c. c \<notin> set cs)"

definition one_of :: "string \<Rightarrow> re" where
  "one_of cs = Chr (\<lambda>c. c \<in> set cs)"




text \<open>\<open>['"]\<close> and \<open>[^'"]+\<close>\<close>

definition quote :: re where
  "quote = one_of [CHR 0x27, CHR 0x22]"

definition unquoted :: re where
  "unquoted = Plus (none_of [CHR 0x27, CHR 0x22])"




section \<open>Inputs, results and the shared cache payload (types.ts)\<close>

datatype Language = JavaScript | Python | Rust | Go | Java

fun Language_str :: "Language \<Rightarrow> string" where
  "Language_str JavaScript = ''javascript''"
| "Language_str Python = ''python''"
| "Language_str Rust = ''rust''"
| "Language_str Go = ''go''"
| "Language_str Java = ''java''"

record DiscoverPackagesInput =
  d_language :: Language
  d_searchTerm :: "string option"
  d_includeDevDependencies :: bool
  d_maxResults :: int


record IntrospectModuleInput =
  i_moduleName :: string
  i_language :: Language
  i_includePrivate :: bool
  i_maxDepth :: int

record SearchAffordancesInput =
  s_query :: string
  s_language :: Language
  s_category :: string
  s_maxResults :: int

record ValidationResult =
  vr_valid :: bool
  vr_packageName :: string
  vr_modulePath :: "string option"
  vr_reason :: "string option"
  vr_suggestions :: "string list option"

text \<open>
  \<open>DiscoveryResult.timestamp\<close> is the instant of the call, kept as the clock reading.
\<close>

record DiscoveryResult =
  dr_packages :: "PackageInfo list"
  dr_totalFound :: nat
  dr_searchTerm :: "string option"
  dr_language :: Language
  dr_timestamp :: int

datatype ExportType = Function | Class | Constant | TypeAlias | Interface | Namespace

record ModuleExport =
  me_name :: string
  me_type :: ExportType
  me_signature :: "string option"
  me_description :: "string option"
  me_parameters :: "(string \<times> string \<times> bool) list option"
  me_returnType :: "string option"

record ModuleInfo =
  mi_name :: string
  mi_path :: string
  mi_exports :: "ModuleExport list"
  mi_submodules :: "string list"
  mi_dependencies :: "string list"

text \<open>
  One cache is shared by all engines and holds results of every kind (\<open>CacheEntry<any>\<close>).
  The type argument of \<open>get<T>\<close> is erased at run time, so a hit hands back the stored
  payload whatever its shape. Every payload is an object, hence truthy in \<open>if (cached)\<close>.
\<close>

datatype Payload =
    Validation ValidationResult
  | Discovery DiscoveryResult
  | Module ModuleInfo

type_synonym Cache = "Payload CacheManager"

text \<open>\<open>this.cache.set(cacheKey, result); return result;\<close>\<close>

definition store_and_return :: "Cache \<Rightarrow> int \<Rightarrow> string \<Rightarrow> Payload \<Rightarrow> Payload \<times> Cache" where
  "store_and_return c now cacheKey result = (result, cache_set c now cacheKey result None)"

text \<open>Truthiness of an optional string: present and not empty.\<close>

definition truthy :: "string option \<Rightarrow> bool" where
  "truthy x = (case x of None \<Rightarrow> False | Some s \<Rightarrow> s \<noteq> [])"

text \<open>\<open>a || b\<close> on optional strings.\<close>

definition js_or :: "string option \<Rightarrow> string option \<Rightarrow> string option" where
  "js_or a b = (if truthy a then a else b)"

text \<open>
  \<open>{...a, ...b}\<close> on objects with string keys (none of them an array index): the keys of
  \<open>a\<close> in their order, then the new keys of \<open>b\<close>; a key of both takes the value of \<open>b\<close>.
\<close>

definition spread :: "(string \<times> 'v) list \<Rightarrow> (string \<times> 'v) list \<Rightarrow> (string \<times> 'v) list" where
  "spread a b = foldl (\<lambda>m (k, v). Map_set k v m) a b"

definition or_empty_object :: "(string \<times> 'v) list option \<Rightarrow> (string \<times> 'v) list" where
  "or_empty_object x = (case x of None \<Rightarrow> [] | Some m \<Rightarrow> m)"

text \<open>
  A \<open>Set\<close> built from an array literal iterates its distinct elements in the order of
  their first occurrence.
\<close>

definition new_Set :: "'a list \<Rightarrow> 'a list" where
  "new_Set xs = foldl (\<lambda>acc x. if x \<in> set acc then acc else acc @ [x]) [] xs"


text \<open>\<open>s.replace(t, '''')\<close> for a string \<open>t\<close>: the first occurrence of \<open>t\<close> is removed.\<close>

fun remove_first :: "string \<Rightarrow> string \<Rightarrow> string" where
  "remove_first [] t = []"
| "remove_first (c # s) t =
     (if startsWith (c # s) t then drop (length t) (c # s) else c # remove_first s t)"

text \<open>
  Paths. \<open>path.dirname\<close> and \<open>path.join\<close> of Node on POSIX paths: \<open>dirname\<close> of the empty
  string is \<open>.\<close>; \<open>join\<close> glues the non-empty parts with a slash and normalises the
  result (no \<open>.\<close> segments, \<open>..\<close> resolved against what precedes it).
\<close>

definition strip_trailing_slashes :: "string \<Rightarrow> string" where
  "strip_trailing_slashes p = rev (dropWhile (\<lambda>c. c = CHR ''/'') (rev p))"

definition dirname :: "string \<Rightarrow> string" where
  "dirname p =
     (let q = strip_trailing_slashes p
      in if q = [] then (if p = [] then ''.'' else ''/'')
         else if CHR ''/'' \<notin> set q then ''.''
         else (let d = strip_trailing_slashes (rev (dropWhile (\<lambda>c. c \<noteq> CHR ''/'') (rev q)))
               in if d = [] then ''/'' else d))"

fun normalize_segments :: "bool \<Rightarrow> string list \<Rightarrow> string list \<Rightarrow> string list" where
  "normalize_segments absolute acc [] = rev acc"
| "normalize_segments absolute acc (seg # segs) =
     (if seg = [] \<or> seg = ''.'' then normalize_segments absolute acc segs
      else if seg = ''..'' then
        (case acc of
           [] \<Rightarrow> normalize_segments absolute (if absolute then [] else [''..'']) segs
         | prev # below \<Rightarrow>
             if prev = ''..'' then normalize_segments absolute (seg # acc) segs
             else normalize_segments absolute below segs)
      else normalize_segments absolute (seg # acc) segs)"

definition path_join :: "string list \<Rightarrow> string" where
  "path_join parts =
     (let joined = join (filter (\<lambda>p. p \<noteq> []) parts) ''/'';
          absolute = startsWith joined ''/'';
          body = join (normalize_segments absolute [] (split joined ''/'')) ''/''
      in if absolute then CHR ''/'' # body
         else if body = [] then ''.'' else body)"

section \<open>Node.js built-in modules (utils/builtin-modules.ts)\<close>

definition NODE_BUILTIN_MODULES_entries :: "string list" where
  "NODE_BUILTIN_MODULES_entries =
     [''assert'', ''assert/strict'', ''async_hooks'', ''buffer'', ''child_process'',
      ''cluster'', ''console'', ''constants'', ''crypto'', ''dgram'',
      ''diagnostics_channel'', ''dns'', ''dns/promises'', ''domain'', ''events'', ''fs'',
      ''fs/promises'', ''http'', ''http2'', ''https'', ''inspector'', ''module'', ''net'',
      ''os'', ''path'', ''path/posix'', ''path/win32'', ''perf_hooks'', ''process'',
      ''punycode'', ''querystring'', ''readline'', ''readline/promises'', ''repl'',
      ''stream'', ''stream/promises'', ''stream/web'', ''string_decoder'', ''sys'',
      ''timers'', ''timers/promises'', ''tls'', ''trace_events'', ''tty'', ''url'', ''util'',
      ''util/types'', ''v8'', ''vm'', ''wasi'', ''worker_threads'', ''zlib'',
      ''stream/consumers'', ''stream/web'', ''util/types'', ''node:test'', ''test'',
      ''node:assert'', ''node:assert/strict'', ''node:async_hooks'', ''node:buffer'',
      ''node:child_process'', ''node:cluster'', ''node:console'', ''node:constants'',
      ''node:crypto'', ''node:dgram'', ''node:diagnostics_channel'', ''node:dns'',
      ''node:dns/promises'', ''node:domain'', ''node:events'', ''node:fs'',
      ''node:fs/promises'', ''node:http'', ''node:http2'', ''node:https'',
      ''node:inspector'', ''node:module'', ''node:net'', ''node:os'', ''node:path'',
      ''node:path/posix'', ''node:path/win32'', ''node:perf_hooks'', ''node:process'',
      ''node:punycode'', ''node:querystring'', ''node:readline'', ''node:readline/promises'',
      ''node:repl'', ''node:stream'', ''node:stream/promises'', ''node:stream/web'',
      ''node:string_decoder'', ''node:sys'', ''node:timers'', ''node:timers/promises'',
      ''node:tls'', ''node:trace_events'', ''node:tty'', ''node:url'', ''node:util'',
      ''node:util/types'', ''node:v8'', ''node:vm'', ''node:wasi'', ''node:worker_threads'',
      ''node:zlib'', ''node:stream/consumers'', ''node:stream/web'', ''node:util/types'']"

definition NODE_BUILTIN_MODULES :: "string list" where
  "NODE_BUILTIN_MODULES = new_Set NODE_BUILTIN_MODULES_entries"

definition isNodeBuiltinModule :: "string \<Rightarrow> bool" where
  "isNodeBuiltinModule moduleName = (moduleName \<in> set NODE_BUILTIN_MODULES)"

definition descriptions :: "(string \<times> string \<times> string) list" where
  "descriptions =
     [(''assert'', ''Assertion testing utilities'', ''testing''),
      (''async_hooks'', ''Async resource lifecycle tracking'', ''utility''),
      (''buffer'', ''Binary data handling'', ''utility''),
      (''child_process'', ''Child process spawning'', ''system''),
      (''cluster'', ''Child process clustering'', ''system''),
      (''console'', ''Console utilities'', ''utility''),
      (''constants'', ''System constants'', ''system''),
      (''crypto'', ''Cryptographic functionality'', ''security''),
      (''dgram'', ''UDP/datagram sockets'', ''network''),
      (''diagnostics_channel'', ''Diagnostics channel API'', ''utility''),
      (''dns'', ''DNS lookups'', ''network''),
      (''domain'', ''Domain error handling'', ''utility''),
      (''events'', ''Event emitter'', ''utility''),
      (''fs'', ''File system operations'', ''system''),
      (''http'', ''HTTP server and client'', ''network''),
      (''http2'', ''HTTP/2 server and client'', ''network''),
      (''https'', ''HTTPS server and client'', ''network''),
      (''inspector'', ''Inspector API'', ''utility''),
      (''module'', ''Module system utilities'', ''system''),
      (''net'', ''TCP networking'', ''network''),
      (''os'', ''Operating system utilities'', ''system''),
      (''path'', ''File path utilities'', ''utility''),
      (''perf_hooks'', ''Performance measurement'', ''utility''),
      (''process'', ''Process object'', ''system''),
      (''punycode'', ''Punycode encoding/decoding'', ''utility''),
      (''querystring'', ''Query string utilities'', ''utility''),
      (''readline'', ''Readline interface'', ''utility''),
      (''repl'', ''Read-eval-print loop'', ''utility''),
      (''stream'', ''Streaming data'', ''utility''),
      (''string_decoder'', ''String decoder'', ''utility''),
      (''sys'', ''System utilities (deprecated)'', ''system''),
      (''timers'', ''Timer functions'', ''utility''),
      (''tls'', ''TLS/SSL encryption'', ''security''),
      (''trace_events'', ''Trace events'', ''utility''),
      (''tty'', ''TTY utilities'', ''system''),
      (''url'', ''URL parsing'', ''utility''),
      (''util'', ''Utility functions'', ''utility''),
      (''v8'', ''V8 engine utilities'', ''system''),
      (''vm'', ''Virtual machine context'', ''system''),
      (''wasi'', ''WebAssembly System Interface'', ''system''),
      (''worker_threads'', ''Worker threads'', ''system''),
      (''zlib'', ''Compression utilities'', ''utility''),
      (''test'', ''Test runner'', ''testing'')]"

record BuiltinModuleInfo =
  bi_name :: string
  bi_isBuiltin :: bool
  bi_description :: "string option"
  bi_category :: "string option"

definition getBuiltinModuleInfo :: "string \<Rightarrow> BuiltinModuleInfo" where
  "getBuiltinModuleInfo moduleName =
     (let isBuiltin = isNodeBuiltinModule moduleName
      in if \<not> isBuiltin
         then \<lparr>bi_name = moduleName, bi_isBuiltin = False, bi_description = None, bi_category = None\<rparr>
         else (let cleanName = remove_first moduleName ''node:'';
                   info = (case map_of descriptions cleanName of
                             Some i \<Rightarrow> i
                           | None \<Rightarrow> (''Node.js built-in module'', ''system''))
               in \<lparr>bi_name = moduleName, bi_isBuiltin = True,
                   bi_description = Some (fst info), bi_category = Some (snd info)\<rparr>))"




section \<open>The JavaScript engine (engines/javascript.ts)\<close>

text \<open>
  What the engine reads of a parsed \<open>package.json\<close>. The dependency records are objects
  with string values; \<open>exports\<close> is kept as its list of keys.
\<close>

record PackageJson =
  pj_version :: "string option"
  pj_description :: "string option"
  pj_main :: "string option"
  pj_types :: "string option"
  pj_typings :: "string option"
  pj_exports :: "string list option"
  pj_dependencies :: "(string \<times> string) list option"
  pj_devDependencies :: "(string \<times> string) list option"

datatype RuntimeShape = Callable | PlainObject | OtherValue

text \<open>
  The surroundings of the JavaScript engine, one field per call that leaves the program:
  \<^item> \<open>cwd\<close>: \<open>process.cwd()\<close>;
  \<^item> \<open>located_package_json\<close>: what \<open>findPackageJson(process.cwd())\<close> returns, the
    nearest \<open>package.json\<close> at or above the working directory and below the root;
  \<^item> \<open>existsSync\<close>: \<open>fs.existsSync\<close>;
  \<^item> \<open>read_json\<close>: \<open>JSON.parse(readFileSync(path, 'utf-8'))\<close>, \<open>None\<close> when either throws;
  \<^item> \<open>require_resolve request root\<close>: \<open>require.resolve(request, {paths: [root]})\<close>,
    \<open>None\<close> when it throws;
  \<^item> \<open>npm_list_global\<close>: the \<open>dependencies\<close> of \<open>npm list -g --depth=0 --json\<close> with the
    version and path of each, \<open>None\<close> when the command or the parse throws;
  \<^item> \<open>parseFile\<close>: the exports found by \<open>ASTParser.parseFile\<close>, \<open>None\<close> when it throws;
  \<^item> \<open>dynamic_import\<close>: the entries of \<open>await import(path)\<close> with the run-time shape of
    each value, \<open>None\<close> when the import throws;
  \<^item> \<open>readdirSync\<close>: \<open>fs.readdirSync\<close>, \<open>None\<close> when it throws.
\<close>

record NodeEnv =
  cwd :: string
  located_package_json :: "string option"
  existsSync :: "string \<Rightarrow> bool"
  read_json :: "string \<Rightarrow> PackageJson option"
  require_resolve :: "string \<Rightarrow> string \<Rightarrow> string option"
  npm_list_global :: "(string \<times> string option \<times> string option) list option"
  parseFile :: "string \<Rightarrow> ModuleExport list option"
  dynamic_import :: "string \<Rightarrow> (string \<times> RuntimeShape) list option"
  readdirSync :: "string \<Rightarrow> string list option"

subsection \<open>Cache keys\<close>

definition js_discover_key :: "DiscoverPackagesInput \<Rightarrow> string" where
  "js_discover_key input =
     generateKey [PStr ''discover'', PStr (Language_str (d_language input)),
       opt_part (d_searchTerm input), PBool (d_includeDevDependencies input),
       PNum (d_maxResults input)]"


definition js_introspect_key :: "IntrospectModuleInput \<Rightarrow> string" where
  "js_introspect_key input =
     generateKey [PStr ''introspect'', PStr (i_moduleName input),
       PStr (Language_str (i_language input)), PBool (i_includePrivate input),
       PNum (i_maxDepth input)]"

definition js_search_key :: "SearchAffordancesInput \<Rightarrow> string" where
  "js_search_key input =
     generateKey [PStr ''searchAffordances'', PStr (s_query input),
       PStr (Language_str (s_language input)), PStr (s_category input),
       PNum (s_maxResults input)]"

subsection \<open>discoverPackages\<close>

definition getPackageInfo :: "NodeEnv \<Rightarrow> string \<Rightarrow> string \<Rightarrow> string \<Rightarrow> PackageInfo" where
  "getPackageInfo env name version projectRoot =
     (let packagePath = path_join [projectRoot, ''node_modules'', name];
          packageJsonPath = path_join [packagePath, ''package.json'']
      in if \<not> existsSync env packageJsonPath then plain_package name version False
         else (case read_json env packageJsonPath of
                 None \<Rightarrow> plain_package name version False
               | Some packageJson \<Rightarrow>
                   \<lparr>pkg_name = name,
                    pkg_version = (if truthy (pj_version packageJson)
                                   then or_empty (pj_version packageJson) else version),
                    pkg_description = pj_description packageJson,
                    pkg_main = pj_main packageJson,
                    pkg_types = js_or (pj_types packageJson) (pj_typings packageJson),
                    pkg_exports = pj_exports packageJson,
                    pkg_dependencies = pj_dependencies packageJson,
                    pkg_devDependencies = pj_devDependencies packageJson,
                    pkg_installed = True,
                    pkg_path = Some packagePath,
                    pkg_category = None, pkg_semanticScore = None\<rparr>))"

text \<open>
  The test that skips a dependency:
  \<open>input.searchTerm && !name.toLowerCase().includes(input.searchTerm.toLowerCase())\<close>.
\<close>

definition skipped_by :: "string option \<Rightarrow> string \<Rightarrow> bool" where
  "skipped_by searchTerm name =
     (truthy searchTerm \<and> \<not> str_includes (toLowerCase name) (toLowerCase (or_empty searchTerm)))"

text \<open>
  The loop over \<open>Object.entries(allDeps)\<close>: \<open>continue\<close> on a skipped name, \<open>break\<close> once
  \<open>maxResults\<close> packages are collected.
\<close>

fun js_collect :: "NodeEnv \<Rightarrow> string option \<Rightarrow> int \<Rightarrow> string \<Rightarrow> PackageInfo list
    \<Rightarrow> (string \<times> string) list \<Rightarrow> PackageInfo list" where
  "js_collect env searchTerm maxResults projectRoot packages [] = packages"
| "js_collect env searchTerm maxResults projectRoot packages ((name, version) # rest) =
     (if skipped_by searchTerm name
      then js_collect env searchTerm maxResults projectRoot packages rest
      else (let packages = packages @ [getPackageInfo env name version projectRoot]
            in if int (length packages) \<ge> maxResults then packages
               else js_collect env searchTerm maxResults projectRoot packages rest))"

fun global_collect :: "string option \<Rightarrow> int \<Rightarrow> PackageInfo list
    \<Rightarrow> (string \<times> string option \<times> string option) list \<Rightarrow> PackageInfo list" where
  "global_collect searchTerm maxResults packages [] = packages"
| "global_collect searchTerm maxResults packages ((name, info) # rest) =
     (if skipped_by searchTerm name
      then global_collect searchTerm maxResults packages rest
      else (let packages = packages @
                  [(plain_package name
                      (if truthy (fst info) then or_empty (fst info) else ''unknown'') True)
                     \<lparr>pkg_path := snd info\<rparr>]
            in if int (length packages) \<ge> maxResults then packages
               else global_collect searchTerm maxResults packages rest))"

definition getGlobalPackages :: "NodeEnv \<Rightarrow> string option \<Rightarrow> int \<Rightarrow> PackageInfo list" where
  "getGlobalPackages env searchTerm maxResults =
     (case npm_list_global env of
        None \<Rightarrow> []
      | Some globalDependencies \<Rightarrow> global_collect searchTerm maxResults [] globalDependencies)"

text \<open>
  The \<open>try\<close> block of \<open>discoverPackages\<close>. When the manifest cannot be read or parsed the
  exception is caught with \<open>packages\<close> still empty, and the global packages are not
  consulted either.
\<close>

definition js_discover_try :: "NodeEnv \<Rightarrow> DiscoverPackagesInput \<Rightarrow> PackageInfo list" where
  "js_discover_try env input =
     (let with_global = (\<lambda>packages.
            if int (length packages) < d_maxResults input
            then packages @ getGlobalPackages env (d_searchTerm input)
                              (d_maxResults input - int (length packages))
            else packages)
      in case located_package_json env of
           None \<Rightarrow> with_global []
         | Some packageJsonPath \<Rightarrow>
             (case read_json env packageJsonPath of
                None \<Rightarrow> []
              | Some packageJson \<Rightarrow>
                  let projectRoot = dirname packageJsonPath;
                      dependencies = or_empty_object (pj_dependencies packageJson);
                      devDependencies = or_empty_object (pj_devDependencies packageJson);
                      allDeps = spread dependencies devDependencies
                  in with_global
                       (js_collect env (d_searchTerm input) (d_maxResults input) projectRoot [] allDeps)))"

definition js_discoverPackages ::
    "NodeEnv \<Rightarrow> Cache \<Rightarrow> int \<Rightarrow> DiscoverPackagesInput \<Rightarrow> Payload \<times> Cache" where
  "js_discoverPackages env c now input =
     (let cacheKey = js_discover_key input
      in case cache_get c now cacheKey of
           (Some cached, c) \<Rightarrow> (cached, c)
         | (None, c) \<Rightarrow>
             let packages = js_discover_try env input;
                 result = \<lparr>dr_packages = slice0 packages (d_maxResults input),
                           dr_totalFound = length packages,
                           dr_searchTerm = d_searchTerm input,
                           dr_language = JavaScript,
                           dr_timestamp = now\<rparr>
             in store_and_return c now cacheKey (Discovery result))"

subsection \<open>validateImport\<close>




definition resolveModulePath :: "NodeEnv \<Rightarrow> string \<Rightarrow> string \<Rightarrow> string option" where
  "resolveModulePath env moduleName projectRoot = require_resolve env moduleName projectRoot"



subsection \<open>introspectModule\<close>

text \<open>The export that stands for a whole built-in module.\<close>

definition builtin_export :: "string \<Rightarrow> ModuleExport" where
  "builtin_export moduleName =
     \<lparr>me_name = ''default'', me_type = Namespace, me_signature = Some moduleName,
      me_description = bi_description (getBuiltinModuleInfo moduleName),
      me_parameters = None, me_returnType = None\<rparr>"

text \<open>An entry of a dynamically imported module, classified by the shape of its value.\<close>

definition runtime_export :: "string \<times> RuntimeShape \<Rightarrow> ModuleExport" where
  "runtime_export entry =
     (let type = (case snd entry of
                    Callable \<Rightarrow> Function
                  | PlainObject \<Rightarrow> Namespace
                  | OtherValue \<Rightarrow> Constant)
      in \<lparr>me_name = fst entry, me_type = type,
          me_signature = (if type = Function then Some (fst entry @ ''()'') else None),
          me_description = None, me_parameters = None, me_returnType = None\<rparr>)"

definition manifest_export :: "string \<Rightarrow> ModuleExport" where
  "manifest_export exportPath =
     \<lparr>me_name = (if exportPath = ''.'' then ''default'' else exportPath), me_type = Namespace,
      me_signature = None, me_description = None, me_parameters = None, me_returnType = None\<rparr>"

text \<open>
  The three stages of \<open>analyzeModuleExports\<close> after the built-in check. Each returns the
  array \<open>exports\<close> as it stands after the stage.
\<close>

definition ast_stage :: "NodeEnv \<Rightarrow> string \<Rightarrow> bool \<Rightarrow> ModuleExport list" where
  "ast_stage env modulePath includePrivate =
     (case parseFile env modulePath of
        None \<Rightarrow> []
      | Some astExports \<Rightarrow>
          filter (\<lambda>exp. includePrivate \<or> \<not> startsWith (me_name exp) ''_'') astExports)"

definition import_stage :: "NodeEnv \<Rightarrow> string \<Rightarrow> bool \<Rightarrow> ModuleExport list" where
  "import_stage env modulePath includePrivate =
     (case dynamic_import env modulePath of
        None \<Rightarrow> []
      | Some entries \<Rightarrow>
          map runtime_export
            (filter (\<lambda>entry. \<not> (\<not> includePrivate \<and> startsWith (fst entry) ''_'')) entries))"

definition manifest_stage :: "NodeEnv \<Rightarrow> string option \<Rightarrow> ModuleExport list" where
  "manifest_stage env modulePath =
     (let packagePath = path_join [dirname (or_empty modulePath), ''package.json'']
      in if existsSync env packagePath
         then (case read_json env packagePath of
                 None \<Rightarrow> []
               | Some packageJson \<Rightarrow>
                   (case pj_exports packageJson of
                      None \<Rightarrow> []
                    | Some exportPaths \<Rightarrow> map manifest_export exportPaths))
         else [])"

definition analyzeModuleExports ::
    "NodeEnv \<Rightarrow> string \<Rightarrow> string option \<Rightarrow> bool \<Rightarrow> ModuleExport list" where
  "analyzeModuleExports env moduleName modulePath includePrivate =
     (if isNodeBuiltinModule moduleName then [builtin_export moduleName]
      else (let exports =
                  (if truthy modulePath
                   then (let exports = ast_stage env (or_empty modulePath) includePrivate
                         in if length exports > 0 then exports
                            else exports @ import_stage env (or_empty modulePath) includePrivate)
                   else [])
            in if length exports = 0 then exports @ manifest_stage env modulePath
               else exports))"

text \<open>\<open>file.replace(/\.(js|ts)$/, '''')\<close>\<close>

definition strip_js_ts :: "string \<Rightarrow> string" where
  "strip_js_ts file =
     (if endsWith file ''.js'' \<or> endsWith file ''.ts'' then take (length file - 3) file else file)"

definition findSubmodules :: "NodeEnv \<Rightarrow> string \<Rightarrow> string option \<Rightarrow> string list" where
  "findSubmodules env moduleName modulePath =
     (if \<not> truthy modulePath then []
      else (let moduleDir = dirname (or_empty modulePath)
            in case readdirSync env moduleDir of
                 None \<Rightarrow> []
               | Some files \<Rightarrow>
                   slice0
                     (map strip_js_ts
                        (filter (\<lambda>file. file \<noteq> ''index.js'' \<and> file \<noteq> ''index.ts'')
                           (filter (\<lambda>file. endsWith file ''.js'' \<or> endsWith file ''.ts'') files)))
                     10))"

definition js_getModuleDependencies :: "NodeEnv \<Rightarrow> string \<Rightarrow> string list" where
  "js_getModuleDependencies env moduleName =
     (let packagePath = path_join [cwd env, ''node_modules'', moduleName, ''package.json'']
      in if existsSync env packagePath
         then (case read_json env packagePath of
                 None \<Rightarrow> []
               | Some packageJson \<Rightarrow> map fst (or_empty_object (pj_dependencies packageJson)))
         else [])"

text \<open>
  Every helper of \<open>introspectModule\<close> catches its own exceptions, so the \<open>catch\<close> branch
  of \<open>introspectModule\<close> itself is never entered.
\<close>

definition js_introspectModule ::
    "NodeEnv \<Rightarrow> Cache \<Rightarrow> int \<Rightarrow> IntrospectModuleInput \<Rightarrow> Payload \<times> Cache" where
  "js_introspectModule env c now input =
     (let cacheKey = js_introspect_key input
      in case cache_get c now cacheKey of
           (Some cached, c) \<Rightarrow> (cached, c)
         | (None, c) \<Rightarrow>
             let modulePath = resolveModulePath env (i_moduleName input) (cwd env);
                 exports = analyzeModuleExports env (i_moduleName input) modulePath
                             (i_includePrivate input);
                 result = \<lparr>mi_name = i_moduleName input,
                           mi_path = (if truthy modulePath then or_empty modulePath else ''''),
                           mi_exports = exports,
                           mi_submodules = findSubmodules env (i_moduleName input) modulePath,
                           mi_dependencies = js_getModuleDependencies env (i_moduleName input)\<rparr>
             in store_and_return c now cacheKey (Module result))"

subsection \<open>searchAffordances\<close>

datatype js_error = TypeError

text \<open>
  \<open>allPackagesResult.packages.map\<close>: reading \<open>packages\<close> off a payload of another shape
  gives \<open>undefined\<close>, and calling \<open>map\<close> on it throws a \<open>TypeError\<close> that
  \<open>searchAffordances\<close> does not catch.
\<close>

definition packages_of :: "Payload \<Rightarrow> PackageInfo list option" where
  "packages_of r = (case r of Discovery d \<Rightarrow> Some (dr_packages d) | _ \<Rightarrow> None)"

definition js_searchAffordances ::
    "NodeEnv \<Rightarrow> Cache \<Rightarrow> int \<Rightarrow> SearchAffordancesInput \<Rightarrow> js_error + (Payload \<times> Cache)" where
  "js_searchAffordances env c now input =
     (let cacheKey = js_search_key input
      in case cache_get c now cacheKey of
           (Some cached, c) \<Rightarrow> Inr (cached, c)
         | (None, c) \<Rightarrow>
             (case js_discoverPackages env c now
                     \<lparr>d_language = s_language input, d_searchTerm = Some '''',
                      d_includeDevDependencies = True, d_maxResults = 1000\<rparr> of
                (allPackagesResult, c) \<Rightarrow>
                  (case packages_of allPackagesResult of
                     None \<Rightarrow> Inl TypeError
                   | Some allPackages \<Rightarrow>
                       let enhancedPackages =
                             map (\<lambda>pkg. enhancePackageInfo pkg (s_query input)) allPackages;
                           searchResults = searchPackagesSemanticaly (s_query input) enhancedPackages
                                             (s_category input) (s_maxResults input);
                           result = \<lparr>dr_packages = searchResults,
                                     dr_totalFound = length searchResults,
                                     dr_searchTerm = Some (s_query input),
                                     dr_language = s_language input,
                                     dr_timestamp = now\<rparr>
                       in Inr (store_and_return c now cacheKey (Discovery result)))))"

section \<open>The Python engine (engines/python.ts)\<close>

definition PYTHON_STDLIB_MODULES_entries :: "string list" where
  "PYTHON_STDLIB_MODULES_entries =
     [''os'', ''sys'', ''json'', ''datetime'', ''time'', ''math'', ''random'',
      ''collections'', ''itertools'', ''functools'', ''operator'', ''copy'', ''pickle'',
      ''csv'', ''xml'', ''sqlite3'', ''threading'', ''multiprocessing'', ''asyncio'',
      ''concurrent'', ''urllib'', ''http'', ''email'', ''html'', ''xml'', ''pathlib'',
      ''shutil'', ''glob'', ''tempfile'', ''zipfile'', ''tarfile'', ''gzip'', ''bz2'',
      ''lzma'', ''subprocess'', ''io'', ''logging'', ''warnings'', ''traceback'',
      ''unittest'', ''doctest'', ''pdb'', ''profile'', ''pstats'', ''timeit'', ''argparse'',
      ''configparser'', ''getopt'', ''optparse'', ''socket'', ''ssl'', ''hashlib'', ''hmac'',
      ''secrets'', ''base64'', ''binascii'', ''struct'', ''codecs'', ''unicodedata'',
      ''stringprep'', ''readline'', ''rlcompleter'', ''cmd'', ''shlex'', ''queue'',
      ''sched'', ''mutex'', ''contextvars'', ''decimal'', ''fractions'', ''statistics'',
      ''array'', ''weakref'', ''gc'', ''inspect'', ''site'', ''imp'', ''importlib'',
      ''pkgutil'', ''modulefinder'', ''runpy'', ''ast'', ''keyword'', ''token'',
      ''tokenize'', ''parser'', ''symbol'', ''dis'', ''pickletools'', ''py_compile'',
      ''compileall'', ''marshal'', ''types'', ''enum'', ''dataclasses'', ''typing'',
      ''typing_extensions'', ''abc'', ''numbers'', ''zlib'', ''gzip'', ''bz2'', ''lzma'',
      ''zipfile'', ''tarfile'']"

definition PYTHON_STDLIB_MODULES :: "string list" where
  "PYTHON_STDLIB_MODULES = new_Set PYTHON_STDLIB_MODULES_entries"

text \<open>
  The surroundings of the Python engine:
  \<^item> \<open>pip_list\<close>: the name and version of each package in the output of
    \<open>pip list --format=json\<close>, \<open>None\<close> when the command or the parse throws;
  \<^item> \<open>conda_list\<close>: the same for \<open>conda list --json\<close>;
  \<^item> \<open>python_can_import\<close>: whether \<open>python -c "import NAME"\<close> exits normally;
  \<^item> \<open>python_members\<close>: the exports \<open>getModuleExports\<close> builds from the output of its
    helper script (empty when the script fails);
  \<^item> \<open>python_module_file\<close>: the trimmed output of the script that prints
    \<open>NAME.__file__\<close>, \<open>None\<close> when it throws.
\<close>

record PythonEnv =
  pip_list :: "(string \<times> string) list option"
  conda_list :: "(string \<times> string) list option"
  python_can_import :: "string \<Rightarrow> bool"
  python_members :: "string \<Rightarrow> ModuleExport list"
  python_module_file :: "string \<Rightarrow> string option"

definition py_discover_key :: "DiscoverPackagesInput \<Rightarrow> string" where
  "py_discover_key input =
     generateKey [PStr ''discover_python'', opt_part (d_searchTerm input),
       PBool (d_includeDevDependencies input), PNum (d_maxResults input)]"


definition py_introspect_key :: "IntrospectModuleInput \<Rightarrow> string" where
  "py_introspect_key input = generateKey [PStr ''introspect_python'', PStr (i_moduleName input)]"

definition getInstalledPackages :: "PythonEnv \<Rightarrow> PackageInfo list" where
  "getInstalledPackages env =
     (case pip_list env of
        Some pipPackages \<Rightarrow> map (\<lambda>(name, version). plain_package name version True) pipPackages
      | None \<Rightarrow>
          (case conda_list env of
             Some condaPackages \<Rightarrow> map (\<lambda>(name, version). plain_package name version True) condaPackages
           | None \<Rightarrow> []))"

text \<open>
  \<open>getStandardLibraryMatches\<close>, the same in the Python, Rust, Go and Java engines up to
  the registry and the description text.
\<close>

definition stdlib_package :: "string \<Rightarrow> string \<Rightarrow> PackageInfo" where
  "stdlib_package text name = (plain_package name ''stdlib'' True)\<lparr>pkg_description := Some text\<rparr>"

definition getStandardLibraryMatches :: "string list \<Rightarrow> string \<Rightarrow> string \<Rightarrow> PackageInfo list" where
  "getStandardLibraryMatches registry text searchTerm =
     (if searchTerm = [] then []
      else (let searchLower = toLowerCase searchTerm
            in map (stdlib_package text)
                 (filter (\<lambda>moduleName. str_includes moduleName searchLower) registry)))"

definition py_discover_try :: "PythonEnv \<Rightarrow> DiscoverPackagesInput \<Rightarrow> PackageInfo list" where
  "py_discover_try env input =
     (let installedPackages = getInstalledPackages env;
          filteredPackages =
            (if truthy (d_searchTerm input)
             then filter (\<lambda>pkg.
                      str_includes (toLowerCase (pkg_name pkg)) (toLowerCase (or_empty (d_searchTerm input)))
                      \<or> (truthy (pkg_description pkg)
                          \<and> str_includes (toLowerCase (or_empty (pkg_description pkg)))
                               (toLowerCase (or_empty (d_searchTerm input)))))
                    installedPackages
             else installedPackages);
          packages = slice0 filteredPackages (d_maxResults input)
      in if int (length packages) < d_maxResults input
         then packages @
              slice0 (getStandardLibraryMatches PYTHON_STDLIB_MODULES ''Python standard library module''
                        (or_empty (d_searchTerm input)))
                (d_maxResults input - int (length packages))
         else packages)"

definition py_discoverPackages ::
    "PythonEnv \<Rightarrow> Cache \<Rightarrow> int \<Rightarrow> DiscoverPackagesInput \<Rightarrow> Payload \<times> Cache" where
  "py_discoverPackages env c now input =
     (let cacheKey = py_discover_key input
      in case cache_get c now cacheKey of
           (Some cached, c) \<Rightarrow> (cached, c)
         | (None, c) \<Rightarrow>
             let packages = py_discover_try env input;
                 result = \<lparr>dr_packages = slice0 packages (d_maxResults input),
                           dr_totalFound = length packages,
                           dr_searchTerm = d_searchTerm input,
                           dr_language = Python,
                           dr_timestamp = now\<rparr>
             in store_and_return c now cacheKey (Discovery result))"








definition py_introspectModule ::
    "PythonEnv \<Rightarrow> Cache \<Rightarrow> int \<Rightarrow> IntrospectModuleInput \<Rightarrow> Payload \<times> Cache" where
  "py_introspectModule env c now input =
     (let cacheKey = py_introspect_key input
      in case cache_get c now cacheKey of
           (Some cached, c) \<Rightarrow> (cached, c)
         | (None, c) \<Rightarrow>
             let exports = python_members env (i_moduleName input);
                 dependencies = [];
                 modulePath = python_module_file env (i_moduleName input);
                 result = \<lparr>mi_name = i_moduleName input,
                           mi_path = (if truthy modulePath then or_empty modulePath else ''''),
                           mi_exports = exports,
                           mi_submodules = [],
                           mi_dependencies = dependencies\<rparr>
             in store_and_return c now cacheKey (Module result))"

text \<open>
  \<open>searchAffordances\<close> of the Python, Rust, Go and Java engines hands the request to
  \<open>discoverPackages\<close> with the query as search term.
\<close>

definition delegated_input :: "SearchAffordancesInput \<Rightarrow> DiscoverPackagesInput" where
  "delegated_input input =
     \<lparr>d_language = s_language input, d_searchTerm = Some (s_query input),
      d_includeDevDependencies = True, d_maxResults = s_maxResults input\<rparr>"

definition py_searchAffordances ::
    "PythonEnv \<Rightarrow> Cache \<Rightarrow> int \<Rightarrow> SearchAffordancesInput \<Rightarrow> Payload \<times> Cache" where
  "py_searchAffordances env c now input = py_discoverPackages env c now (delegated_input input)"

section \<open>The Rust engine (engines/rust.ts)\<close>

definition RUST_STDLIB_MODULES_entries :: "string list" where
  "RUST_STDLIB_MODULES_entries =
     [''std'', ''core'', ''alloc'', ''proc_macro'', ''test'', ''std::collections'',
      ''std::fs'', ''std::io'', ''std::net'', ''std::os'', ''std::path'', ''std::process'',
      ''std::sync'', ''std::thread'', ''std::time'', ''std::env'', ''std::fmt'',
      ''std::str'', ''std::string'', ''std::vec'', ''std::hash'', ''std::convert'',
      ''std::default'', ''std::iter'', ''std::mem'', ''std::ptr'', ''std::slice'',
      ''std::borrow'', ''std::clone'', ''std::cmp'', ''std::marker'', ''std::ops'',
      ''std::option'', ''std::result'', ''std::any'', ''std::ascii'', ''std::char'',
      ''std::f32'', ''std::f64'', ''std::i8'', ''std::i16'', ''std::i32'', ''std::i64'',
      ''std::i128'', ''std::isize'', ''std::u8'', ''std::u16'', ''std::u32'', ''std::u64'',
      ''std::u128'', ''std::usize'', ''std::primitive'']"

definition RUST_STDLIB_MODULES :: "string list" where
  "RUST_STDLIB_MODULES = new_Set RUST_STDLIB_MODULES_entries"

text \<open>
  The surroundings of the Rust engine:
  \<^item> \<open>located_cargo_toml\<close>: what \<open>findCargoToml(process.cwd())\<close> returns;
  \<^item> \<open>read_cargo_toml\<close>: \<open>readFileSync(path, 'utf-8')\<close>, \<open>None\<close> when it throws.
\<close>

record RustEnv =
  located_cargo_toml :: "string option"
  read_cargo_toml :: "string \<Rightarrow> string option"

definition rust_discover_key :: "DiscoverPackagesInput \<Rightarrow> string" where
  "rust_discover_key input =
     generateKey [PStr ''discover_rust'', opt_part (d_searchTerm input),
       PBool (d_includeDevDependencies input), PNum (d_maxResults input)]"


definition rust_introspect_key :: "IntrospectModuleInput \<Rightarrow> string" where
  "rust_introspect_key input = generateKey [PStr ''introspect_rust'', PStr (i_moduleName input)]"

text \<open>
  \<open>parseCargoToml\<close>. The result is an object of sections, each an object of keys; both
  are kept as association lists in insertion order (no section or key is \<open>__proto__\<close> or
  an array index). A section header starts its section afresh.
\<close>

type_synonym toml = "(string \<times> (string \<times> string) list) list"

definition cargo_line :: "toml \<times> string \<Rightarrow> string \<Rightarrow> toml \<times> string" where
  "cargo_line state line =
     (let result = fst state;
          currentSection = snd state;
          trimmed = trim line
      in if startsWith trimmed ''['' \<and> endsWith trimmed '']''
         then (let currentSection = butlast (tl trimmed)
               in (Map_set currentSection [] result, currentSection))
         else if str_includes trimmed ''='' \<and> currentSection \<noteq> []
         then (case map trim (take 2 (split trimmed ''='')) of
                 key # value # _ \<Rightarrow>
                   if key \<noteq> [] \<and> value \<noteq> []
                   then (let cleanKey = filter (\<lambda>ch. ch \<noteq> CHR 0x22) key;
                             cleanValue = filter (\<lambda>ch. ch \<noteq> CHR 0x22) value
                         in (Map_set currentSection
                               (Map_set cleanKey cleanValue
                                  (or_empty_object (Map_get result currentSection)))
                               result,
                             currentSection))
                   else state
               | _ \<Rightarrow> state)
         else state)"

definition parseCargoToml :: "RustEnv \<Rightarrow> string \<Rightarrow> toml" where
  "parseCargoToml env cargoTomlPath =
     (case read_cargo_toml env cargoTomlPath of
        None \<Rightarrow> []
      | Some content \<Rightarrow> fst (foldl cargo_line ([], []) (split content [CHR 0x0A])))"

text \<open>\<open>cargoToml.dependencies || {}\<close> and \<open>cargoToml['dev-dependencies'] || {}\<close>\<close>

definition section_of :: "toml \<Rightarrow> string \<Rightarrow> (string \<times> string) list" where
  "section_of cargoToml section = or_empty_object (Map_get cargoToml section)"

text \<open>
  The loop over the declared dependencies of the Rust, Go and Java engines: \<open>continue\<close>
  on a skipped name, \<open>break\<close> once \<open>maxResults\<close> packages are collected.
\<close>

fun collect :: "string option \<Rightarrow> int \<Rightarrow> PackageInfo list \<Rightarrow> PackageInfo list \<Rightarrow> PackageInfo list" where
  "collect searchTerm maxResults packages [] = packages"
| "collect searchTerm maxResults packages (dep # rest) =
     (if skipped_by searchTerm (pkg_name dep)
      then collect searchTerm maxResults packages rest
      else (let packages = packages @ [dep]
            in if int (length packages) \<ge> maxResults then packages
               else collect searchTerm maxResults packages rest))"

text \<open>The part of \<open>discoverPackages\<close> that the four engines share after the loop.\<close>

definition with_stdlib :: "string list \<Rightarrow> string \<Rightarrow> DiscoverPackagesInput \<Rightarrow> PackageInfo list
    \<Rightarrow> PackageInfo list" where
  "with_stdlib registry text input packages =
     (if int (length packages) < d_maxResults input
      then packages @
           slice0 (getStandardLibraryMatches registry text (or_empty (d_searchTerm input)))
             (d_maxResults input - int (length packages))
      else packages)"

definition discovery_result :: "Language \<Rightarrow> int \<Rightarrow> DiscoverPackagesInput \<Rightarrow> PackageInfo list
    \<Rightarrow> DiscoveryResult" where
  "discovery_result lang now input packages =
     \<lparr>dr_packages = slice0 packages (d_maxResults input),
      dr_totalFound = length packages,
      dr_searchTerm = d_searchTerm input,
      dr_language = lang,
      dr_timestamp = now\<rparr>"

definition rust_discover_try :: "RustEnv \<Rightarrow> DiscoverPackagesInput \<Rightarrow> PackageInfo list" where
  "rust_discover_try env input =
     (let packages =
            (case located_cargo_toml env of
               None \<Rightarrow> []
             | Some cargoTomlPath \<Rightarrow>
                 let cargoToml = parseCargoToml env cargoTomlPath;
                     dependencies = section_of cargoToml ''dependencies'';
                     devDependencies = (if d_includeDevDependencies input
                                        then section_of cargoToml ''dev-dependencies'' else []);
                     allDeps = spread dependencies devDependencies
                 in collect (d_searchTerm input) (d_maxResults input) []
                      (map (\<lambda>(name, version). plain_package name version True) allDeps))
      in with_stdlib RUST_STDLIB_MODULES ''Rust standard library module'' input packages)"

definition rust_discoverPackages ::
    "RustEnv \<Rightarrow> Cache \<Rightarrow> int \<Rightarrow> DiscoverPackagesInput \<Rightarrow> Payload \<times> Cache" where
  "rust_discoverPackages env c now input =
     (let cacheKey = rust_discover_key input
      in case cache_get c now cacheKey of
           (Some cached, c) \<Rightarrow> (cached, c)
         | (None, c) \<Rightarrow>
             store_and_return c now cacheKey
               (Discovery (discovery_result Rust now input (rust_discover_try env input))))"







text \<open>The names \<open>getSimilarPackages\<close> scans first: \<open>Object.keys(allDeps)\<close>.\<close>

definition rust_declared :: "RustEnv \<Rightarrow> string list" where
  "rust_declared env =
     (case located_cargo_toml env of
        None \<Rightarrow> []
      | Some cargoTomlPath \<Rightarrow>
          let cargoToml = parseCargoToml env cargoTomlPath;
              dependencies = section_of cargoToml ''dependencies'';
              devDependencies = section_of cargoToml ''dev-dependencies'';
              allDeps = spread dependencies devDependencies
          in map fst allDeps)"



text \<open>
  \<open>introspectModule\<close> of the Rust, Go and Java engines returns an empty description of
  the module.
\<close>

definition empty_module :: "string \<Rightarrow> ModuleInfo" where
  "empty_module moduleName =
     \<lparr>mi_name = moduleName, mi_path = '''', mi_exports = [], mi_submodules = [],
      mi_dependencies = []\<rparr>"

definition rust_introspectModule :: "Cache \<Rightarrow> int \<Rightarrow> IntrospectModuleInput \<Rightarrow> Payload \<times> Cache" where
  "rust_introspectModule c now input =
     (let cacheKey = rust_introspect_key input
      in case cache_get c now cacheKey of
           (Some cached, c) \<Rightarrow> (cached, c)
         | (None, c) \<Rightarrow>
             store_and_return c now cacheKey (Module (empty_module (i_moduleName input))))"

definition rust_searchAffordances ::
    "RustEnv \<Rightarrow> Cache \<Rightarrow> int \<Rightarrow> SearchAffordancesInput \<Rightarrow> Payload \<times> Cache" where
  "rust_searchAffordances env c now input = rust_discoverPackages env c now (delegated_input input)"

section \<open>The Go engine (engines/go.ts)\<close>

definition GO_STDLIB_PACKAGES_entries :: "string list" where
  "GO_STDLIB_PACKAGES_entries =
     [''fmt'', ''log'', ''os'', ''io'', ''net'', ''http'', ''time'', ''strings'',
      ''strconv'', ''bytes'', ''bufio'', ''context'', ''sync'', ''json'', ''xml'', ''html'',
      ''url'', ''path'', ''filepath'', ''sort'', ''math'', ''crypto'', ''encoding'',
      ''compress'', ''archive'', ''database'', ''regexp'', ''unicode'', ''reflect'',
      ''runtime'', ''errors'', ''flag'', ''testing'', ''image'', ''text'', ''mime'',
      ''plugin'', ''debug'', ''go'', ''index'', ''container'', ''hash'', ''net/http'',
      ''net/url'', ''net/mail'', ''net/smtp'', ''net/textproto'', ''crypto/md5'',
      ''crypto/sha1'', ''crypto/sha256'', ''crypto/sha512'', ''crypto/aes'', ''crypto/des'',
      ''crypto/rsa'', ''crypto/rand'', ''crypto/tls'', ''crypto/x509'', ''encoding/json'',
      ''encoding/xml'', ''encoding/base64'', ''encoding/hex'', ''encoding/csv'',
      ''encoding/gob'', ''encoding/binary'', ''text/template'', ''text/scanner'',
      ''html/template'', ''image/jpeg'', ''image/png'', ''image/gif'', ''compress/gzip'',
      ''compress/zlib'', ''archive/zip'', ''archive/tar'', ''database/sql'',
      ''database/sql/driver'', ''go/ast'', ''go/build'', ''go/doc'', ''go/format'',
      ''go/parser'', ''go/token'', ''container/heap'', ''container/list'',
      ''container/ring'', ''hash/crc32'', ''hash/crc64'', ''hash/fnv'',
      ''index/suffixarray'', ''mime/multipart'', ''mime/quotedprintable'', ''debug/dwarf'',
      ''debug/elf'', ''debug/gosym'', ''debug/macho'', ''debug/pe'', ''debug/plan9obj'']"

definition GO_STDLIB_PACKAGES :: "string list" where
  "GO_STDLIB_PACKAGES = new_Set GO_STDLIB_PACKAGES_entries"

text \<open>
  The surroundings of the Go engine:
  \<^item> \<open>located_go_mod\<close>: what \<open>findGoMod(process.cwd())\<close> returns;
  \<^item> \<open>read_go_mod\<close>: \<open>readFileSync(path, 'utf-8')\<close>, \<open>None\<close> when it throws.
\<close>

record GoEnv =
  located_go_mod :: "string option"
  read_go_mod :: "string \<Rightarrow> string option"

definition go_discover_key :: "DiscoverPackagesInput \<Rightarrow> string" where
  "go_discover_key input =
     generateKey [PStr ''discover_go'', opt_part (d_searchTerm input),
       PBool (d_includeDevDependencies input), PNum (d_maxResults input)]"


definition go_introspect_key :: "IntrospectModuleInput \<Rightarrow> string" where
  "go_introspect_key input = generateKey [PStr ''introspect_go'', PStr (i_moduleName input)]"

text \<open>\<open>/require\s+([^\s]+)\s+([^\s]+)/\<close>\<close>

definition require_re :: re where
  "require_re = seq [Lit ''require'', Plus ws, Cap (Plus non_space), Plus ws, Cap (Plus non_space)]"

definition gomod_line :: "(string \<times> string) list \<times> bool \<Rightarrow> string \<Rightarrow> (string \<times> string) list \<times> bool" where
  "gomod_line state line =
     (let require = fst state;
          inRequireBlock = snd state;
          trimmed = trim line
      in if startsWith trimmed ''require ('' then (require, True)
         else if inRequireBlock \<and> trimmed = '')'' then (require, False)
         else if inRequireBlock \<or> startsWith trimmed ''require ''
         then (case str_match trimmed require_re of
                 Some requireMatch \<Rightarrow>
                   (case requireMatch of
                      name # version # _ \<Rightarrow> (require @ [(name, version)], inRequireBlock)
                    | _ \<Rightarrow> state)
               | None \<Rightarrow>
                   (case split_ws trimmed of
                      name # version # _ \<Rightarrow> (require @ [(name, version)], inRequireBlock)
                    | _ \<Rightarrow> state))
         else state)"

text \<open>\<open>parseGoMod(path).require\<close>\<close>

definition parseGoMod :: "GoEnv \<Rightarrow> string \<Rightarrow> (string \<times> string) list" where
  "parseGoMod env goModPath =
     (case read_go_mod env goModPath of
        None \<Rightarrow> []
      | Some content \<Rightarrow> fst (foldl gomod_line ([], False) (split content [CHR 0x0A])))"

definition go_dependencies :: "GoEnv \<Rightarrow> (string \<times> string) list" where
  "go_dependencies env =
     (case located_go_mod env of
        None \<Rightarrow> []
      | Some goModPath \<Rightarrow> parseGoMod env goModPath)"

definition go_discover_try :: "GoEnv \<Rightarrow> DiscoverPackagesInput \<Rightarrow> PackageInfo list" where
  "go_discover_try env input =
     (let packages = collect (d_searchTerm input) (d_maxResults input) []
                       (map (\<lambda>(name, version). plain_package name version True) (go_dependencies env))
      in with_stdlib GO_STDLIB_PACKAGES ''Go standard library package'' input packages)"

definition go_discoverPackages ::
    "GoEnv \<Rightarrow> Cache \<Rightarrow> int \<Rightarrow> DiscoverPackagesInput \<Rightarrow> Payload \<times> Cache" where
  "go_discoverPackages env c now input =
     (let cacheKey = go_discover_key input
      in case cache_get c now cacheKey of
           (Some cached, c) \<Rightarrow> (cached, c)
         | (None, c) \<Rightarrow>
             store_and_return c now cacheKey
               (Discovery (discovery_result Go now input (go_discover_try env input))))"







definition go_introspectModule :: "Cache \<Rightarrow> int \<Rightarrow> IntrospectModuleInput \<Rightarrow> Payload \<times> Cache" where
  "go_introspectModule c now input =
     (let cacheKey = go_introspect_key input
      in case cache_get c now cacheKey of
           (Some cached, c) \<Rightarrow> (cached, c)
         | (None, c) \<Rightarrow>
             store_and_return c now cacheKey (Module (empty_module (i_moduleName input))))"

definition go_searchAffordances ::
    "GoEnv \<Rightarrow> Cache \<Rightarrow> int \<Rightarrow> SearchAffordancesInput \<Rightarrow> Payload \<times> Cache" where
  "go_searchAffordances env c now input = go_discoverPackages env c now (delegated_input input)"


section \<open>The Java engine (engines/java.ts)\<close>

definition JAVA_STDLIB_PACKAGES_entries :: "string list" where
  "JAVA_STDLIB_PACKAGES_entries =
     [''java.lang'', ''java.util'', ''java.io'', ''java.net'', ''java.nio'', ''java.time'',
      ''java.text'', ''java.math'', ''java.security'', ''java.sql'', ''java.awt'',
      ''java.swing'', ''javax.swing'', ''java.applet'', ''java.beans'', ''java.rmi'',
      ''java.util.concurrent'', ''java.util.regex'', ''java.util.stream'',
      ''java.util.function'', ''java.util.logging'', ''java.nio.file'', ''java.nio.charset'',
      ''java.security.cert'', ''java.security.spec'', ''java.time.format'',
      ''java.time.temporal'', ''java.time.zone'', ''javax.crypto'', ''javax.net'',
      ''javax.security'', ''javax.sql'', ''javax.xml'', ''javax.annotation'',
      ''javax.management'', ''javax.naming'', ''javax.script'', ''javax.sound'',
      ''javax.imageio'', ''javax.print'', ''javax.tools'', ''javax.lang'',
      ''javax.accessibility'', ''javax.activity'', ''javax.transaction'', ''org.w3c.dom'',
      ''org.xml.sax'', ''org.ietf.jgss'']"

definition JAVA_STDLIB_PACKAGES :: "string list" where
  "JAVA_STDLIB_PACKAGES = new_Set JAVA_STDLIB_PACKAGES_entries"

text \<open>
  The surroundings of the Java engine:
  \<^item> \<open>located_build_file\<close>: what \<open>findBuildFile(process.cwd())\<close> returns;
  \<^item> \<open>read_build_file\<close>: \<open>readFileSync(path, 'utf-8')\<close>, \<open>None\<close> when it throws.
\<close>

record JavaEnv =
  located_build_file :: "string option"
  read_build_file :: "string \<Rightarrow> string option"

definition java_discover_key :: "DiscoverPackagesInput \<Rightarrow> string" where
  "java_discover_key input =
     generateKey [PStr ''discover_java'', opt_part (d_searchTerm input),
       PBool (d_includeDevDependencies input), PNum (d_maxResults input)]"


definition java_introspect_key :: "IntrospectModuleInput \<Rightarrow> string" where
  "java_introspect_key input = generateKey [PStr ''introspect_java'', PStr (i_moduleName input)]"

text \<open>\<open>x || 'latest'\<close> for a string that may be absent.\<close>

definition or_latest :: "string option \<Rightarrow> string" where
  "or_latest x = (if truthy x then or_empty x else ''latest'')"

text \<open>\<open>/<TAG>(.*?)<\/TAG>/\<close>\<close>

definition tag_re :: "string \<Rightarrow> re" where
  "tag_re tag = seq [Lit (''<'' @ tag @ ''>''), Cap (LazyStar any_char), Lit (''</'' @ tag @ ''>'')]"

text \<open>\<open>/<dependency>[\s\S]*?<\/dependency>/g\<close>\<close>

definition dependency_re :: re where
  "dependency_re = seq [Lit ''<dependency>'', LazyStar any_char_or_newline, Lit ''</dependency>'']"

definition pom_dependency :: "string \<Rightarrow> PackageInfo list" where
  "pom_dependency depMatch =
     (let groupIdMatch = str_match depMatch (tag_re ''groupId'');
          artifactIdMatch = str_match depMatch (tag_re ''artifactId'');
          versionMatch = str_match depMatch (tag_re ''version'')
      in case (groupIdMatch, artifactIdMatch) of
           (Some g, Some a) \<Rightarrow>
             let groupId = concat (take 1 g);
                 artifactId = concat (take 1 a);
                 version = (case versionMatch of
                              Some v \<Rightarrow> concat (take 1 v)
                            | None \<Rightarrow> ''latest'')
             in [plain_package (groupId @ '':'' @ artifactId) (or_latest (Some version)) True]
         | _ \<Rightarrow> [])"

text \<open>
  \<open>(?:implementation|compile|api|testImplementation|testCompile)\<close>, and the two Gradle
  notations that follow it.
\<close>

definition configuration_re :: re where
  "configuration_re =
     alt [Lit ''implementation'', Lit ''compile'', Lit ''api'', Lit ''testImplementation'',
          Lit ''testCompile'']"

definition gradle_short_re :: re where
  "gradle_short_re = seq [configuration_re, Plus ws, quote, Cap unquoted, quote]"

definition gradle_long_re :: re where
  "gradle_long_re =
     seq [configuration_re, Plus ws, Lit ''group:'', Star ws, quote, Cap unquoted, quote,
          Lit '','', Star ws, Lit ''name:'', Star ws, quote, Cap unquoted, quote,
          Lit '','', Star ws, Lit ''version:'', Star ws, quote, Cap unquoted, quote]"

text \<open>\<open>m[i]\<close> on a match array (\<open>i \<ge> 1\<close>), \<open>None\<close> for \<open>undefined\<close>.\<close>

definition group :: "string list \<Rightarrow> nat \<Rightarrow> string option" where
  "group m i = (if 1 \<le> i \<and> i \<le> length m then Some (m ! (i - 1)) else None)"

definition gradle_line :: "string \<Rightarrow> PackageInfo list" where
  "gradle_line line =
     (let trimmed = trim line;
          depMatch = (case str_match trimmed gradle_short_re of
                        Some m \<Rightarrow> Some m
                      | None \<Rightarrow> str_match trimmed gradle_long_re)
      in case depMatch of
           None \<Rightarrow> []
         | Some m \<Rightarrow>
             if truthy (group m 1) \<and> str_includes (or_empty (group m 1)) '':''
             then (case split (or_empty (group m 1)) '':'' of
                     g # a # rest \<Rightarrow>
                       [plain_package (g @ '':'' @ a)
                          (or_latest (case rest of [] \<Rightarrow> None | v # _ \<Rightarrow> Some v)) True]
                   | _ \<Rightarrow> [])
             else if truthy (group m 1) \<and> truthy (group m 2)
             then [plain_package (or_empty (group m 1) @ '':'' @ or_empty (group m 2))
                     (or_latest (group m 3)) True]
             else [])"

definition parseBuildFile :: "JavaEnv \<Rightarrow> string \<Rightarrow> PackageInfo list" where
  "parseBuildFile env buildFilePath =
     (case read_build_file env buildFilePath of
        None \<Rightarrow> []
      | Some content \<Rightarrow>
          let fileName = (case rev (split buildFilePath ''/'') of last_part # _ \<Rightarrow> last_part | [] \<Rightarrow> [])
          in if fileName = ''pom.xml''
             then concat (map pom_dependency (str_match_all content dependency_re))
             else if startsWith fileName ''build.gradle''
             then concat (map gradle_line (split content [CHR 0x0A]))
             else [])"

definition java_dependencies :: "JavaEnv \<Rightarrow> PackageInfo list" where
  "java_dependencies env =
     (case located_build_file env of
        None \<Rightarrow> []
      | Some buildFile \<Rightarrow> parseBuildFile env buildFile)"

definition java_discover_try :: "JavaEnv \<Rightarrow> DiscoverPackagesInput \<Rightarrow> PackageInfo list" where
  "java_discover_try env input =
     (let packages = collect (d_searchTerm input) (d_maxResults input) [] (java_dependencies env)
      in with_stdlib JAVA_STDLIB_PACKAGES ''Java standard library package'' input packages)"

definition java_discoverPackages ::
    "JavaEnv \<Rightarrow> Cache \<Rightarrow> int \<Rightarrow> DiscoverPackagesInput \<Rightarrow> Payload \<times> Cache" where
  "java_discoverPackages env c now input =
     (let cacheKey = java_discover_key input
      in case cache_get c now cacheKey of
           (Some cached, c) \<Rightarrow> (cached, c)
         | (None, c) \<Rightarrow>
             store_and_return c now cacheKey
               (Discovery (discovery_result Java now input (java_discover_try env input))))"








definition java_introspectModule :: "Cache \<Rightarrow> int \<Rightarrow> IntrospectModuleInput \<Rightarrow> Payload \<times> Cache" where
  "java_introspectModule c now input =
     (let cacheKey = java_introspect_key input
      in case cache_get c now cacheKey of
           (Some cached, c) \<Rightarrow> (cached, c)
         | (None, c) \<Rightarrow>
             store_and_return c now cacheKey (Module (empty_module (i_moduleName input))))"

definition java_searchAffordances ::
    "JavaEnv \<Rightarrow> Cache \<Rightarrow> int \<Rightarrow> SearchAffordancesInput \<Rightarrow> Payload \<times> Cache" where
  "java_searchAffordances env c now input = java_discoverPackages env c now (delegated_input input)"

section \<open>The procedures of the specification, and example surroundings\<close>

text \<open>A request finds nothing under its key: \<open>this.cache.get(cacheKey)\<close> returns \<open>null\<close>.\<close>

definition cache_miss :: "Cache \<Rightarrow> int \<Rightarrow> string \<Rightarrow> bool" where
  "cache_miss c now cacheKey = (fst (cache_get c now cacheKey) = None)"

text \<open>The names \<open>getSimilarPackages\<close> of the JavaScript engine scans: \<open>Object.keys(allDeps)\<close>.\<close>

definition js_declared :: "NodeEnv \<Rightarrow> string list" where
  "js_declared env =
     (case located_package_json env of
        None \<Rightarrow> []
      | Some packageJsonPath \<Rightarrow>
          (case read_json env packageJsonPath of
             None \<Rightarrow> []
           | Some packageJson \<Rightarrow>
               map fst (spread (or_empty_object (pj_dependencies packageJson))
                          (or_empty_object (pj_devDependencies packageJson)))))"

text \<open>
  Ranking as the specification words it: keep the records of the category (when one is
  asked for), drop the records of score zero, sort by descending score with ties in their
  original order, keep the first \<open>maxResults\<close>.
\<close>

definition in_category :: "string \<Rightarrow> PackageInfo \<Rightarrow> bool" where
  "in_category c record =
     (c = ''all'' \<or>
      (\<exists>k \<in> set (category_keywords c).
         str_includes (toLowerCase (pkg_name record)) k
         \<or> str_includes (toLowerCase (or_empty (pkg_description record))) k))"

definition rank :: "string \<Rightarrow> PackageInfo list \<Rightarrow> string \<Rightarrow> nat \<Rightarrow> PackageInfo list" where
  "rank query records categoryFilter maxResults =
     take maxResults
       (sort_key (\<lambda>r. - reference_score query r)
          (filter (\<lambda>r. reference_score query r > 0)
             (filter (in_category categoryFilter) records)))"

text \<open>Annotation as the specification words it: the category and the score of the record.\<close>

definition annotate :: "string \<Rightarrow> PackageInfo \<Rightarrow> PackageInfo" where
  "annotate query record =
     record\<lparr>pkg_category := Some (categorizePackage record),
            pkg_semanticScore := Some (reference_score query record)\<rparr>"

text \<open>
  \<open>searchAffordances\<close> as the specification words it, over an engine's
  \<open>discoverPackages\<close>: enumerate the candidates with an empty search term (at most
  \<open>limit\<close> of them), annotate each, rank, return the top \<open>maxResults\<close>.
\<close>

definition all_packages_input :: "Language \<Rightarrow> int \<Rightarrow> DiscoverPackagesInput" where
  "all_packages_input lang limit =
     \<lparr>d_language = lang, d_searchTerm = Some '''', d_includeDevDependencies = True,
      d_maxResults = limit\<rparr>"

definition specified_search ::
    "(DiscoverPackagesInput \<Rightarrow> Payload \<times> Cache) \<Rightarrow> int \<Rightarrow> SearchAffordancesInput
      \<Rightarrow> PackageInfo list option" where
  "specified_search discover limit input =
     (case packages_of (fst (discover (all_packages_input (s_language input) limit))) of
        None \<Rightarrow> None
      | Some candidates \<Rightarrow>
          Some (rank (s_query input) (map (annotate (s_query input)) candidates)
                  (s_category input) (nat (s_maxResults input))))"

text \<open>An empty cache with the options of the server (index.ts).\<close>

definition empty_cache :: Cache where
  "empty_cache = new_CacheManager \<lparr>options_ttl = 5 * 60 * 1000, maxSize = 1000\<rparr>"

text \<open>
  A JavaScript project at \<open>/app\<close>: its manifest declares three packages and an exports
  map; one of the packages is installed; nothing else resolves.
\<close>

definition no_package_json :: PackageJson where
  "no_package_json =
     \<lparr>pj_version = None, pj_description = None, pj_main = None, pj_types = None,
      pj_typings = None, pj_exports = None, pj_dependencies = None, pj_devDependencies = None\<rparr>"

definition app_package_json :: PackageJson where
  "app_package_json =
     no_package_json
       \<lparr>pj_version := Some ''0.1.0'',
        pj_exports := Some [''.'', ''./utils''],
        pj_dependencies := Some [(''axios'', ''^1.6.0''), (''react'', ''^18.2.0'')],
        pj_devDependencies := Some [(''vitest'', ''^1.0.0'')]\<rparr>"

definition axios_package_json :: PackageJson where
  "axios_package_json =
     no_package_json
       \<lparr>pj_version := Some ''1.6.2'',
        pj_description := Some ''Promise based HTTP client for the browser and node.js'',
        pj_main := Some ''index.js''\<rparr>"

definition app_env :: NodeEnv where
  "app_env =
     \<lparr>cwd = ''/app'',
      located_package_json = Some ''/app/package.json'',
      existsSync = (\<lambda>p. p \<in> set [''/app/package.json'', ''/app/node_modules/axios'',
                                    ''/app/node_modules/axios/package.json'']),
      read_json = (\<lambda>p. if p = ''/app/package.json'' then Some app_package_json
                        else if p = ''/app/node_modules/axios/package.json''
                        then Some axios_package_json else None),
      require_resolve = (\<lambda>request root.
                           if request = ''axios'' \<and> root = ''/app''
                           then Some ''/app/node_modules/axios/index.js''
                           else if request = ''fs'' then Some ''fs'' else None),
      npm_list_global = Some [],
      parseFile = (\<lambda>p. None),
      dynamic_import = (\<lambda>p. None),
      readdirSync = (\<lambda>p. None)\<rparr>"

text \<open>
  The same project with the server started inside it, so that relative paths are read
  against \<open>/app\<close>: \<open>package.json\<close> is the project's own manifest.
\<close>

definition app_env_relative :: NodeEnv where
  "app_env_relative =
     app_env\<lparr>existsSync := (\<lambda>p. p = ''package.json'' \<or> existsSync app_env p),
              read_json := (\<lambda>p. if p = ''package.json'' then Some app_package_json
                                else read_json app_env p)\<rparr>"

text \<open>A Python installation with two packages.\<close>

definition py_env :: PythonEnv where
  "py_env =
     \<lparr>pip_list = Some [(''requests'', ''2.31.0''), (''numpy'', ''1.26.0'')],
      conda_list = None,
      python_can_import = (\<lambda>n. n \<in> set [''requests'', ''numpy'']),
      python_members = (\<lambda>n. []),
      python_module_file = (\<lambda>n. None)\<rparr>"

text \<open>A Rust crate whose \<open>Cargo.toml\<close> declares two dependencies and one dev-dependency.\<close>

definition cargo_toml_text :: string where
  "cargo_toml_text =
     join [''[package]'', ''name = \"demo\"'', '''',
           ''[dependencies]'', ''serde = \"1.0\"'', ''test = \"0.1\"'', '''',
           ''[dev-dependencies]'', ''test-case = \"3\"''] [CHR 0x0A]"

definition rust_env :: RustEnv where
  "rust_env =
     \<lparr>located_cargo_toml = Some ''/crate/Cargo.toml'',
      read_cargo_toml = (\<lambda>p. if p = ''/crate/Cargo.toml'' then Some cargo_toml_text else None)\<rparr>"

text \<open>A Go module with one requirement, and a Gradle build with one dependency.\<close>

definition go_env :: GoEnv where
  "go_env =
     \<lparr>located_go_mod = Some ''/mod/go.mod'',
      read_go_mod = (\<lambda>p. if p = ''/mod/go.mod''
                          then Some (join [''module example.com/m'', '''',
                                           ''require github.com/gorilla/mux v1.8.0''] [CHR 0x0A])
                          else None)\<rparr>"

definition java_env :: JavaEnv where
  "java_env =
     \<lparr>located_build_file = Some ''/j/build.gradle'',
      read_build_file = (\<lambda>p. if p = ''/j/build.gradle''
                              then Some (join [''dependencies {'',
                                               ''  implementation \"com.google.guava:guava:31.1\"'',
                                               ''}''] [CHR 0x0A])
                              else None)\<rparr>"



text \<open>The record of a well-known HTTP client.\<close>

definition axios_record :: PackageInfo where
  "axios_record =
     (plain_package ''axios'' ''1.6.2'' True)
       \<lparr>pkg_description := Some ''Promise based HTTP client for the browser and node.js''\<rparr>"




text \<open>The request of the engine's own test for a module that does not exist.\<close>

definition missing_module_input :: IntrospectModuleInput where
  "missing_module_input =
     \<lparr>i_moduleName = ''non-existent-module-12345'', i_language = JavaScript,
      i_includePrivate = False, i_maxDepth = 2\<rparr>"

text \<open>Two search requests used below.\<close>

definition serialization_search :: SearchAffordancesInput where
  "serialization_search =
     \<lparr>s_query = ''serialization'', s_language = Rust, s_category = ''all'', s_maxResults = 20\<rparr>"

definition http_client_search :: SearchAffordancesInput where
  "http_client_search =
     \<lparr>s_query = ''http client'', s_language = JavaScript, s_category = ''network'',
      s_maxResults = 5\<rparr>"

text \<open>What \<open>discoverPackages\<close> finds in the JavaScript project with the empty search term.\<close>

definition app_candidates :: DiscoveryResult where
  "app_candidates =
     \<lparr>dr_packages =
        [\<lparr>pkg_name = ''axios'', pkg_version = ''1.6.2'',
          pkg_description = Some ''Promise based HTTP client for the browser and node.js'',
          pkg_main = Some ''index.js'', pkg_types = None, pkg_exports = None,
          pkg_dependencies = None, pkg_devDependencies = None, pkg_installed = True,
          pkg_path = Some ''/app/node_modules/axios'', pkg_category = None,
          pkg_semanticScore = None\<rparr>,
         plain_package ''react'' ''^18.2.0'' False,
         plain_package ''vitest'' ''^1.0.0'' False],
      dr_totalFound = 3, dr_searchTerm = Some '''', dr_language = JavaScript, dr_timestamp = 0\<rparr>"

text \<open>A Rust crate that declares one dependency.\<close>

definition serde_env :: RustEnv where
  "serde_env =
     \<lparr>located_cargo_toml = Some ''/crate/Cargo.toml'',
      read_cargo_toml = (\<lambda>p. if p = ''/crate/Cargo.toml''
                              then Some (join [''[dependencies]'', ''serde = \"1.0\"''] [CHR 0x0A])
                              else None)\<rparr>"

definition serde_record :: PackageInfo where
  "serde_record = plain_package ''serde'' ''1.0'' True"

text \<open>A string without the delimiter of \<open>generateKey\<close>.\<close>

definition colon_free :: "string \<Rightarrow> bool" where
  "colon_free s = (CHR '':'' \<notin> set s)"










section \<open>Properties of the cache\<close>

lemma Map_get_Map_set: "Map_get (Map_set k v m) k' = (if k' = k then Some v else Map_get m k')"
  by (induction m) (auto simp: Map_get_def)

lemma Map_get_Map_delete: "Map_get (Map_delete k m) k' = (if k' = k then None else Map_get m k')"
  by (induction m) (auto simp: Map_get_def Map_delete_def)

lemma keys_Map_set: "fst ` set (Map_set k v m) = insert k (fst ` set m)"
  by (induction m) auto

lemma distinct_Map_set: "distinct (map fst m) \<Longrightarrow> distinct (map fst (Map_set k v m))"
  by (induction m) (auto simp: keys_Map_set)

lemma length_Map_set_le: "length (Map_set k v m) \<le> Suc (length m)"
  by (induction m) auto

lemma length_Map_delete_le: "length (Map_delete k m) \<le> length m"
  by (simp add: Map_delete_def)

lemma keys_Map_delete: "fst ` set (Map_delete k m) = fst ` set m - {k}"
  by (auto simp: Map_delete_def)

lemma distinct_Map_delete: "distinct (map fst m) \<Longrightarrow> distinct (map fst (Map_delete k m))"
  by (simp add: Map_delete_def distinct_map_filter)

lemma length_Map_delete_first:
  "distinct (map fst (p # ps)) \<Longrightarrow> length (Map_delete (fst p) (p # ps)) = length ps"
proof -
  assume d: "distinct (map fst (p # ps))"
  then have "\<forall>q\<in>set ps. fst q \<noteq> fst p" by (auto simp: image_iff)
  then have "filter (\<lambda>q. fst q \<noteq> fst p) ps = ps" by (simp add: filter_id_conv)
  then show ?thesis by (simp add: Map_delete_def)
qed

lemma fold_Map_delete_keys: "fst ` set (fold Map_delete ks m) \<subseteq> fst ` set m"
proof (induction ks arbitrary: m)
  case Nil then show ?case by simp
next
  case (Cons k ks)
  have "fst ` set (fold Map_delete ks (Map_delete k m)) \<subseteq> fst ` set (Map_delete k m)" by (rule Cons.IH)
  also have "\<dots> \<subseteq> fst ` set m" by (simp add: keys_Map_delete)
  finally show ?case by simp
qed

lemma fold_Map_delete_length: "length (fold Map_delete ks m) \<le> length m"
proof (induction ks arbitrary: m)
  case Nil then show ?case by simp
next
  case (Cons k ks)
  have "length (fold Map_delete ks (Map_delete k m)) \<le> length (Map_delete k m)" by (rule Cons.IH)
  also have "\<dots> \<le> length m" by (rule length_Map_delete_le)
  finally show ?case by simp
qed

lemma fold_Map_delete_distinct: "distinct (map fst m) \<Longrightarrow> distinct (map fst (fold Map_delete ks m))"
  by (induction ks arbitrary: m) (auto simp: distinct_Map_delete)

lemma cache_inv_set:
  assumes "cache_inv cm" "1 \<le> maxSize (options cm)" "key \<noteq> []"
  shows "cache_inv (cache_set cm now key val customTtl) \<and> options (cache_set cm now key val customTtl) = options cm"
proof (cases "int (length (cache cm)) \<ge> maxSize (options cm)")
  case True
  with assms obtain p ps where c: "cache cm = p # ps" by (cases "cache cm") auto
  from assms c have ne: "fst p \<noteq> []" by (auto simp: cache_inv_def)
  from assms c have d: "distinct (map fst (p # ps))" by (simp add: cache_inv_def)
  let ?ev = "Map_delete (fst p) (p # ps)"
  have l: "length ?ev = length ps" using d by (rule length_Map_delete_first)
  have cs: "cache (cache_set cm now key val customTtl) =
      Map_set key \<lparr>data = val, timestamp = now, ttl = (case customTtl of Some t \<Rightarrow> t | None \<Rightarrow> options_ttl (options cm))\<rparr> ?ev"
    using True c ne by (simp add: cache_set_def Map_first_key_def Let_def)
  have "length (cache (cache_set cm now key val customTtl)) \<le> Suc (length ps)"
    unfolding cs using length_Map_set_le[of key _ ?ev] l by simp
  moreover have "int (Suc (length ps)) \<le> maxSize (options cm)" using assms c by (simp add: cache_inv_def)
  moreover have "distinct (map fst (cache (cache_set cm now key val customTtl)))"
    unfolding cs using d by (intro distinct_Map_set distinct_Map_delete)
  moreover have "[] \<notin> set (map fst (cache (cache_set cm now key val customTtl)))"
    unfolding cs using assms c by (auto simp: cache_inv_def keys_Map_set keys_Map_delete)
  moreover have "options (cache_set cm now key val customTtl) = options cm"
    by (simp add: cache_set_def Let_def)
  ultimately show ?thesis by (simp add: cache_inv_def)
next
  case False
  have cs: "cache (cache_set cm now key val customTtl) =
      Map_set key \<lparr>data = val, timestamp = now, ttl = (case customTtl of Some t \<Rightarrow> t | None \<Rightarrow> options_ttl (options cm))\<rparr> (cache cm)"
    using False by (simp add: cache_set_def Let_def)
  have "length (cache (cache_set cm now key val customTtl)) \<le> Suc (length (cache cm))"
    unfolding cs by (rule length_Map_set_le)
  moreover have "distinct (map fst (cache (cache_set cm now key val customTtl)))"
    unfolding cs using assms by (intro distinct_Map_set) (simp add: cache_inv_def)
  moreover have "[] \<notin> set (map fst (cache (cache_set cm now key val customTtl)))"
    unfolding cs using assms by (auto simp: cache_inv_def keys_Map_set)
  moreover have "options (cache_set cm now key val customTtl) = options cm"
    by (simp add: cache_set_def Let_def)
  ultimately show ?thesis using False by (simp add: cache_inv_def)
qed

lemma cache_inv_get:
  assumes "cache_inv cm"
  shows "cache_inv (snd (cache_get cm now key)) \<and> options (snd (cache_get cm now key)) = options cm"
proof -
  have "length (Map_delete key (cache cm)) \<le> length (cache cm)" by (rule length_Map_delete_le)
  then show ?thesis using assms
    by (auto simp: cache_get_def cache_inv_def keys_Map_delete distinct_Map_delete split: option.splits)
qed

lemma cache_inv_cleanup:
  assumes "cache_inv cm"
  shows "cache_inv (cleanup cm now) \<and> options (cleanup cm now) = options cm"
proof -
  let ?ks = "map fst (filter (\<lambda>(key, entry). now - timestamp entry > ttl entry) (cache cm))"
  have "length (fold Map_delete ?ks (cache cm)) \<le> length (cache cm)" by (rule fold_Map_delete_length)
  moreover have "fst ` set (fold Map_delete ?ks (cache cm)) \<subseteq> fst ` set (cache cm)" by (rule fold_Map_delete_keys)
  ultimately show ?thesis using assms fold_Map_delete_distinct[of "cache cm" ?ks]
    by (auto simp: cleanup_def cache_inv_def Let_def)
qed

lemma cache_inv_op:
  assumes "cache_inv cm" "1 \<le> maxSize (options cm)" "set_key_of op \<noteq> Some []"
  shows "cache_inv (apply_cache_op cm op) \<and> options (apply_cache_op cm op) = options cm"
proof (cases op)
  case (Get now key) then show ?thesis using cache_inv_get[OF assms(1)] by simp
next
  case (Set now key val customTtl) then show ?thesis using cache_inv_set[of cm key] assms by simp
next
  case (Has now key)
  then show ?thesis using cache_inv_get[OF assms(1), of now key]
    by (cases "cache_get cm now key") (simp add: cache_has_def)
next
  case (Delete key)
  have "length (Map_delete key (cache cm)) \<le> length (cache cm)" by (rule length_Map_delete_le)
  then show ?thesis using Delete assms(1)
    by (auto simp: cache_delete_def cache_inv_def keys_Map_delete distinct_Map_delete)
next
  case Clear then show ?thesis using assms by (simp add: cache_clear_def cache_inv_def)
next
  case (Cleanup now) then show ?thesis using cache_inv_cleanup[OF assms(1)] by simp
qed

lemma cache_inv_run:
  assumes "cache_inv cm" "1 \<le> maxSize (options cm)" "\<forall>op\<in>set ops. set_key_of op \<noteq> Some []"
  shows "cache_inv (run_cache_ops cm ops) \<and> options (run_cache_ops cm ops) = options cm"
  using assms unfolding run_cache_ops_def
proof (induction ops arbitrary: cm)
  case Nil then show ?case by simp
next
  case (Cons op ops)
  have s: "cache_inv (apply_cache_op cm op) \<and> options (apply_cache_op cm op) = options cm"
    using Cons.prems by (intro cache_inv_op) auto
  then have "cache_inv (foldl apply_cache_op (apply_cache_op cm op) ops) \<and>
      options (foldl apply_cache_op (apply_cache_op cm op) ops) = options (apply_cache_op cm op)"
    using Cons.prems by (intro Cons.IH) auto
  then show ?case using s by simp
qed

lemma cache_size_bounded:
  fixes ops :: "'v cache_op list"
  assumes "1 \<le> maxSize opts" "\<forall>op\<in>set ops. set_key_of op \<noteq> Some []"
  shows "int (cache_size (run_cache_ops (new_CacheManager opts) ops)) \<le> maxSize opts"
proof -
  let ?cm = "new_CacheManager opts :: 'v CacheManager"
  have "cache_inv ?cm" using assms(1)
    by (simp add: cache_inv_def new_CacheManager_def)
  moreover have "options ?cm = opts" by (simp add: new_CacheManager_def)
  ultimately have r: "cache_inv (run_cache_ops ?cm ops) \<and> options (run_cache_ops ?cm ops) = opts"
    using cache_inv_run[of ?cm ops] assms by simp
  from r have i: "cache_inv (run_cache_ops ?cm ops)" and o: "options (run_cache_ops ?cm ops) = opts"
    by blast+
  from i have "int (length (cache (run_cache_ops ?cm ops))) \<le> maxSize (options (run_cache_ops ?cm ops))"
    unfolding cache_inv_def by blast
  then show ?thesis unfolding o cache_size_def .
qed

text \<open>
  Reading back what was just stored: the value comes back until more than its time to
  live has passed, then the read reports absence.
\<close>

lemma cache_get_after_set:
  "fst (cache_get (cache_set cm t key val customTtl) now key) =
     (if now - t > (case customTtl of Some d \<Rightarrow> d | None \<Rightarrow> options_ttl (options cm))
      then None else Some val)"
  by (simp add: cache_get_def cache_set_def Let_def Map_get_Map_set)

text \<open>
  C5. \<open>get(key)\<close> on a key with a stored entry returns absence when the time since the
  entry was made exceeds its time to live, and then the entry is gone from the map while
  every other key is untouched; otherwise it returns exactly the stored value and leaves
  the cache as it was. On a key with no entry it returns absence. The model of \<open>get\<close>
  is a total function whose result has no error part: no path of \<open>get\<close> throws.
\<close>

theorem cache_get_lazy_expiry:
  "(case Map_get (cache cm) key of
      None \<Rightarrow> cache_get cm now key = (None, cm)
    | Some entry \<Rightarrow>
        (now - timestamp entry > ttl entry \<longrightarrow>
           fst (cache_get cm now key) = None
           \<and> Map_get (cache (snd (cache_get cm now key))) key = None
           \<and> (\<forall>k. k \<noteq> key \<longrightarrow>
                 Map_get (cache (snd (cache_get cm now key))) k = Map_get (cache cm) k)
           \<and> options (snd (cache_get cm now key)) = options cm)
      \<and> (\<not> now - timestamp entry > ttl entry \<longrightarrow>
           cache_get cm now key = (Some (data entry), cm)))"
  by (simp add: cache_get_def Map_get_Map_delete split: option.splits)

theorem cache_get_lazy_expiry_witness:
  "fst (cache_get example_cache 1501 ''k'') = None
   \<and> Map_get (cache (snd (cache_get example_cache 1501 ''k''))) ''k'' = None
   \<and> cache_get example_cache 1500 ''k'' = (Some 7, example_cache)
   \<and> cache_get example_cache 1500 ''j'' = (None, example_cache)"
  using cache_get_lazy_expiry [where cm = example_cache and key = "''k''" and now = 1501]
        cache_get_lazy_expiry [where cm = example_cache and key = "''k''" and now = 1500]
        cache_get_lazy_expiry [where cm = example_cache and key = "''j''" and now = 1500]
  by (simp add: example_cache_def Map_get_def)

text \<open>
  C4. With \<open>maxSize = 1\<close>, storing under the empty key and then under \<open>a\<close> leaves two
  entries: the map is full at the second \<open>set\<close>, its oldest key is the empty string, the
  guard \<open>if (oldestKey)\<close> reads it as false, and nothing is evicted.
\<close>

theorem cache_set_exceeds_maxSize:
  "cache_size (run_cache_ops (new_CacheManager \<lparr>options_ttl = 60000, maxSize = 1\<rparr>)
      [Set 0 '''' (1::nat) None, Set 1 ''a'' 2 None]) = 2"
  by (simp add: run_cache_ops_def new_CacheManager_def cache_set_def cache_size_def
      Map_first_key_def Map_delete_def)

text \<open>
  C10. \<open>generateKey\<close> is not injective: dropping an \<open>undefined\<close> part, or moving a
  colon between a part and the separator, gives the same key for different part lists.
\<close>

theorem generateKey_not_injective:
  "generateKey [PStr ''validate'', PStr ''a'', PUndefined, PStr ''b'']
     = generateKey [PStr ''validate'', PStr ''a'', PStr ''b'']
   \<and> [PStr ''validate'', PStr ''a'', PUndefined, PStr ''b'']
     \<noteq> [PStr ''validate'', PStr ''a'', PStr ''b'']
   \<and> generateKey [PStr ''validate'', PStr ''a:b'', PStr ''c'']
     = generateKey [PStr ''validate'', PStr ''a'', PStr ''b:c'']
   \<and> [PStr ''validate'', PStr ''a:b'', PStr ''c''] \<noteq> [PStr ''validate'', PStr ''a'', PStr ''b:c'']
   \<and> generateKey [PStr ''discover'', PStr ''true'', PNum 5]
     = generateKey [PStr ''discover'', PBool True, PStr ''5'']"
  by (simp add: generateKey_def string_of_int_def)

section \<open>Properties of validateImport\<close>






lemma cache_miss_empty_cache: "cache_miss empty_cache now k"
  by (simp add: cache_miss_def cache_get_def empty_cache_def new_CacheManager_def Map_get_def)

lemma cache_miss_obtain:
  assumes "cache_miss c now k"
  obtains c1 where "cache_get c now k = (None, c1)"
  using assms by (cases "cache_get c now k") (simp add: cache_miss_def)

subsection \<open>A statement that no pattern matches\<close>









subsection \<open>A statement whose root identifier is in the standard library\<close>










section \<open>Properties of the relevance scorer\<close>

lemma foldl_queryWord:
  "foldl (forEach_queryWord n (split_ws d)) a qs = a + sum_list (map (query_word_term n d) qs)"
  by (induction qs arbitrary: a)
     (simp_all add: forEach_queryWord_def query_word_term_def list_ex_iff)

lemma foldl_category:
  "foldl (forEach_category q n d) a cs
     = a + sum_list (map (\<lambda>(c, info). category_term q n d info) cs)"
  by (induction cs arbitrary: a)
     (auto simp: forEach_category_def category_term_def matchingKeywordCount_def Let_def)

lemma foldl_functionality:
  "foldl (forEach_functionality q n) a fs = a + sum_list (map (functionality_term q n) fs)"
  by (induction fs arbitrary: a)
     (auto simp: forEach_functionality_def functionality_term_def)

lemma calculateSemanticScore_eq:
  "calculateSemanticScore query record = reference_score query record"
  unfolding calculateSemanticScore_def reference_score_def Let_def
    foldl_queryWord foldl_category foldl_functionality
  by (simp add: exact_name_term_def partial_name_term_def)

text \<open>
  C7. \<open>calculateSemanticScore\<close> is a function of the query and the record alone (it
  reads no cache and no surroundings), and its value is the additive formula: 100 for an
  exact name match, 50 for containment either way between query and name, for each word
  of the query 30 when the name contains it and 20 when a word of the description
  contains it, for each of the six categories the number of its keywords found in the
  query, name or description times 10 times the weight of the category, and 40 for each
  functionality phrase found in the query whose package list has the name. All
  comparisons are made on the lowercased query, name and description.
\<close>

theorem calculateSemanticScore_is_additive_formula:
  "calculateSemanticScore query record = reference_score query record"
  by (rule calculateSemanticScore_eq)

text \<open>The six categories and their weight.\<close>

lemma six_categories:
  "map fst PACKAGE_CATEGORIES = [''ui'', ''data'', ''network'', ''testing'', ''build'', ''utility'']"
  "\<forall>info \<in> snd ` set PACKAGE_CATEGORIES. weight info = 1"
  by (simp_all add: PACKAGE_CATEGORIES_def)

text \<open>
  The scenario of the specification: for the query \<open>http client\<close> a package named in the
  functionality list of that phrase scores 120, the empty query still scores 140.
\<close>

lemma score_examples:
  "calculateSemanticScore ''http client'' axios_record = 120"
  "calculateSemanticScore '''' axios_record = 140"
  by code_simp+

section \<open>Properties of the similarity suggester\<close>


lemma slice0_nonneg: "0 \<le> n \<Longrightarrow> slice0 xs n = take (nat n) xs"
  by (simp add: slice0_def)

lemma keys_foldl_Map_set:
  "fst ` set (foldl (\<lambda>m (k, v). Map_set k v m) a b) = fst ` set a \<union> fst ` set b"
proof (induction b arbitrary: a)
  case Nil
  then show ?case by simp
next
  case (Cons x b)
  obtain k v where x: "x = (k, v)" by (cases x)
  have "fst ` set (foldl (\<lambda>m (k, v). Map_set k v m) (Map_set k v a) b)
          = fst ` set (Map_set k v a) \<union> fst ` set b"
    by (rule Cons.IH)
  also have "\<dots> = insert k (fst ` set a) \<union> fst ` set b"
    by (simp only: keys_Map_set)
  finally show ?case using x by simp
qed

lemma keys_spread: "fst ` set (spread a b) = fst ` set a \<union> fst ` set b"
  by (simp add: spread_def keys_foldl_Map_set)

text \<open>
  What the engines scan first is exactly the set of names the manifest declares as
  dependencies or dev-dependencies.
\<close>

lemma js_declared_names:
  assumes "located_package_json env = Some manifest" and "read_json env manifest = Some packageJson"
  shows "set (js_declared env)
           = fst ` set (or_empty_object (pj_dependencies packageJson))
             \<union> fst ` set (or_empty_object (pj_devDependencies packageJson))"
  using assms by (simp add: js_declared_def keys_spread)

lemma rust_declared_names:
  assumes "located_cargo_toml env = Some manifest"
  shows "set (rust_declared env)
           = fst ` set (section_of (parseCargoToml env manifest) ''dependencies'')
             \<union> fst ` set (section_of (parseCargoToml env manifest) ''dev-dependencies'')"
  using assms by (simp add: rust_declared_def keys_spread Let_def)







section \<open>Properties of introspectModule\<close>

text \<open>
  When the module cannot be resolved, is not a built-in, and the last stage finds no
  exports map, the description has an empty path and no exports.
\<close>

lemma js_unresolved_module_is_empty:
  assumes "cache_miss c now (js_introspect_key input)"
    and "require_resolve env (i_moduleName input) (cwd env) = None"
    and "\<not> isNodeBuiltinModule (i_moduleName input)"
    and "manifest_stage env None = []"
  shows "\<exists>deps. fst (js_introspectModule env c now input)
           = Module \<lparr>mi_name = i_moduleName input, mi_path = '''', mi_exports = [],
               mi_submodules = [], mi_dependencies = deps\<rparr>"
proof -
  obtain c1 where g: "cache_get c now (js_introspect_key input) = (None, c1)"
    using assms(1) by (rule cache_miss_obtain)
  show ?thesis
    unfolding js_introspectModule_def Let_def g
    by (simp add: assms(2,3,4) resolveModulePath_def analyzeModuleExports_def findSubmodules_def
        truthy_def store_and_return_def)
qed

text \<open>The Rust, Go and Java engines describe every module as empty.\<close>

lemma simplified_introspect_is_empty:
  "cache_miss c now (rust_introspect_key input)
     \<Longrightarrow> fst (rust_introspectModule c now input) = Module (empty_module (i_moduleName input))"
  "cache_miss c now (go_introspect_key input)
     \<Longrightarrow> fst (go_introspectModule c now input) = Module (empty_module (i_moduleName input))"
  "cache_miss c now (java_introspect_key input)
     \<Longrightarrow> fst (java_introspectModule c now input) = Module (empty_module (i_moduleName input))"
  by (auto simp: rust_introspectModule_def go_introspectModule_def java_introspectModule_def
      store_and_return_def Let_def elim!: cache_miss_obtain)

text \<open>
  C9. In a project whose own manifest has an exports map, introspecting a module that
  cannot be resolved gives an empty path together with a non-empty list of exports. The
  last stage of \<open>analyzeModuleExports\<close> reads \<open>join(dirname(modulePath || ''''),
  'package.json')\<close>; with no module path this is \<open>package.json\<close> of the working
  directory, the manifest of the project itself, and its export paths are reported as
  exports of the missing module.
\<close>

theorem unresolved_module_reports_project_exports:
  "resolveModulePath app_env_relative (i_moduleName missing_module_input) (cwd app_env_relative) = None
   \<and> path_join [dirname '''', ''package.json''] = ''package.json''
   \<and> fst (js_introspectModule app_env_relative empty_cache 0 missing_module_input)
       = Module \<lparr>mi_name = ''non-existent-module-12345'', mi_path = '''',
           mi_exports = [manifest_export ''.'', manifest_export ''./utils''],
           mi_submodules = [], mi_dependencies = []\<rparr>"
  by code_simp

section \<open>Properties of searchAffordances\<close>

lemma sort_insert_scored:
  "sort_insert (\<lambda>a b. snd b - snd a) (x, f x) (map (\<lambda>p. (p, f p)) ys)
     = map (\<lambda>p. (p, f p)) (insort_key (\<lambda>p. - f p) x ys)"
  for f :: "'a \<Rightarrow> int"
  by (induction ys) auto

lemma js_sort_scored:
  "js_sort (\<lambda>a b. snd b - snd a) (map (\<lambda>p. (p, f p)) xs)
     = map (\<lambda>p. (p, f p)) (sort_key (\<lambda>p. - f p) xs)"
  for f :: "'a \<Rightarrow> int"
proof (induction xs)
  case Nil
  then show ?case by (simp add: js_sort_def)
next
  case (Cons x xs)
  have "js_sort (\<lambda>a b. snd b - snd a) (map (\<lambda>p. (p, f p)) (x # xs))
          = sort_insert (\<lambda>a b. snd b - snd a) (x, f x)
              (js_sort (\<lambda>a b. snd b - snd a) (map (\<lambda>p. (p, f p)) xs))"
    by (simp add: js_sort_def)
  also have "\<dots> = sort_insert (\<lambda>a b. snd b - snd a) (x, f x)
                      (map (\<lambda>p. (p, f p)) (sort_key (\<lambda>p. - f p) xs))"
    by (simp only: Cons.IH)
  also have "\<dots> = map (\<lambda>p. (p, f p)) (insort_key (\<lambda>p. - f p) x (sort_key (\<lambda>p. - f p) xs))"
    by (rule sort_insert_scored)
  finally show ?case by (simp add: sort_key_def)
qed

lemma filter_scored:
  "filter (\<lambda>(pkg, score). P pkg score) (map (\<lambda>p. (p, f p)) xs)
     = map (\<lambda>p. (p, f p)) (filter (\<lambda>p. P p (f p)) xs)"
  by (induction xs) auto

lemma in_category_code:
  "in_category c pkg \<longleftrightarrow>
     c = ''all'' \<or>
     list_ex (\<lambda>keyword. str_includes (toLowerCase (pkg_name pkg)) keyword
                \<or> str_includes (toLowerCase (or_empty (pkg_description pkg))) keyword)
       (category_keywords c)"
  by (simp add: in_category_def list_ex_iff)

text \<open>
  \<open>searchPackagesSemanticaly\<close> ranks as the specification says, for a non-negative
  \<open>maxResults\<close>.
\<close>

lemma searchPackagesSemanticaly_eq_rank:
  assumes "0 \<le> maxResults"
  shows "searchPackagesSemanticaly query pkgs c maxResults = rank query pkgs c (nat maxResults)"
proof -
  let ?f = "calculateSemanticScore query"
  let ?g = "\<lambda>p. (p, ?f p)"
  let ?member = "\<lambda>pkg. list_ex (\<lambda>keyword. str_includes (toLowerCase (pkg_name pkg)) keyword
                \<or> str_includes (toLowerCase (or_empty (pkg_description pkg))) keyword)
                (category_keywords c)"
  have filtered:
    "(if c \<noteq> ''all''
      then filter (\<lambda>(pkg, score). ?member pkg) (map ?g pkgs)
      else map ?g pkgs) = map ?g (filter (in_category c) pkgs)"
  proof (cases "c = ''all''")
    case True
    then show ?thesis by (simp add: in_category_def)
  next
    case False
    have "filter (\<lambda>(pkg, score). ?member pkg) (map ?g pkgs) = map ?g (filter ?member pkgs)"
      by (rule filter_scored [where P = "\<lambda>pkg score. ?member pkg"])
    moreover have "filter ?member pkgs = filter (in_category c) pkgs"
      using False by (intro filter_cong refl) (simp add: in_category_code)
    ultimately show ?thesis using False by simp
  qed
  have positive:
    "filter (\<lambda>(pkg, score). score > 0) (map ?g (filter (in_category c) pkgs))
       = map ?g (filter (\<lambda>p. ?f p > 0) (filter (in_category c) pkgs))"
    by (rule filter_scored [where P = "\<lambda>pkg score. score > 0"])
  have "searchPackagesSemanticaly query pkgs c maxResults
          = map fst (slice0 (js_sort (\<lambda>a b. snd b - snd a)
              (filter (\<lambda>(pkg, score). score > 0) (map ?g (filter (in_category c) pkgs))))
              maxResults)"
    unfolding searchPackagesSemanticaly_def Let_def filtered [symmetric] by simp
  also have "\<dots> = map fst (take (nat maxResults)
              (map ?g (sort_key (\<lambda>p. - ?f p)
                 (filter (\<lambda>p. ?f p > 0) (filter (in_category c) pkgs)))))"
    unfolding positive js_sort_scored using assms by (simp add: slice0_nonneg)
  also have "\<dots> = take (nat maxResults)
              (sort_key (\<lambda>p. - ?f p) (filter (\<lambda>p. ?f p > 0) (filter (in_category c) pkgs)))"
    by (simp add: take_map [symmetric] comp_def)
  finally show ?thesis
    by (simp add: rank_def calculateSemanticScore_eq)
qed

lemma enhance_annotates:
  "query \<noteq> [] \<Longrightarrow> enhancePackageInfo pkg query = annotate query pkg"
  by (simp add: enhancePackageInfo_def annotate_def Let_def calculateSemanticScore_eq)

lemma enhance_empty_query:
  "enhancePackageInfo pkg [] = pkg\<lparr>pkg_category := Some (categorizePackage pkg)\<rparr>"
  by (simp add: enhancePackageInfo_def Let_def)

text \<open>With the empty search term no candidate is skipped.\<close>

lemma empty_term_skips_nothing: "\<not> skipped_by (Some []) n"
  by (simp add: skipped_by_def truthy_def)

lemma js_search_ranks_candidates:
  assumes "cache_miss c now (js_search_key input)"
    and "fst (js_discoverPackages env (snd (cache_get c now (js_search_key input))) now
               (all_packages_input (s_language input) 1000)) = Discovery candidates"
    and "0 \<le> s_maxResults input"
  shows "\<exists>c'. js_searchAffordances env c now input
           = Inr (Discovery
                    \<lparr>dr_packages =
                        rank (s_query input)
                          (map (\<lambda>pkg. enhancePackageInfo pkg (s_query input)) (dr_packages candidates))
                          (s_category input) (nat (s_maxResults input)),
                     dr_totalFound =
                        length (rank (s_query input)
                          (map (\<lambda>pkg. enhancePackageInfo pkg (s_query input)) (dr_packages candidates))
                          (s_category input) (nat (s_maxResults input))),
                     dr_searchTerm = Some (s_query input),
                     dr_language = s_language input,
                     dr_timestamp = now\<rparr>, c')"
proof -
  obtain c1 where g: "cache_get c now (js_search_key input) = (None, c1)"
    using assms(1) by (rule cache_miss_obtain)
  obtain payload c2 where d:
    "js_discoverPackages env c1 now
       \<lparr>d_language = s_language input, d_searchTerm = Some '''',
        d_includeDevDependencies = True, d_maxResults = 1000\<rparr> = (payload, c2)"
    by (cases "js_discoverPackages env c1 now
       \<lparr>d_language = s_language input, d_searchTerm = Some '''',
        d_includeDevDependencies = True, d_maxResults = 1000\<rparr>")
  have p: "payload = Discovery candidates"
    using assms(2) d g by (simp add: all_packages_input_def)
  show ?thesis
    unfolding js_searchAffordances_def Let_def g
    by (simp add: d p packages_of_def store_and_return_def
        searchPackagesSemanticaly_eq_rank [OF assms(3)])
qed

text \<open>
  C8, as the code has it. In the JavaScript engine, when the request is not answered from
  the cache and \<open>discoverPackages\<close> (called with the empty search term, a limit of 1000
  and dev-dependencies included) yields a discovery result, \<open>searchAffordances\<close> returns
  the candidates of that result, each annotated with its category and, for a non-empty
  query, its score, ranked as the specification says (category filter, no record of score
  zero, descending score with ties in their original order, the first \<open>maxResults\<close>). The
  Python, Rust, Go and Java engines do not rank: they return what \<open>discoverPackages\<close>
  returns for the query as search term and the same \<open>maxResults\<close>.
\<close>

theorem searchAffordances_ranks_in_javascript_and_delegates_elsewhere:
  "(cache_miss c now (js_search_key input)
      \<and> fst (js_discoverPackages node (snd (cache_get c now (js_search_key input))) now
               (all_packages_input (s_language input) 1000)) = Discovery candidates
      \<and> 0 \<le> s_maxResults input
    \<longrightarrow> (\<exists>c'. js_searchAffordances node c now input
           = Inr (Discovery
                    \<lparr>dr_packages =
                        rank (s_query input)
                          (map (\<lambda>pkg. enhancePackageInfo pkg (s_query input)) (dr_packages candidates))
                          (s_category input) (nat (s_maxResults input)),
                     dr_totalFound =
                        length (rank (s_query input)
                          (map (\<lambda>pkg. enhancePackageInfo pkg (s_query input)) (dr_packages candidates))
                          (s_category input) (nat (s_maxResults input))),
                     dr_searchTerm = Some (s_query input),
                     dr_language = s_language input,
                     dr_timestamp = now\<rparr>, c')))
   \<and> (s_query input \<noteq> [] \<longrightarrow>
        enhancePackageInfo pkg (s_query input) = annotate (s_query input) pkg)
   \<and> enhancePackageInfo pkg [] = pkg\<lparr>pkg_category := Some (categorizePackage pkg)\<rparr>
   \<and> py_searchAffordances python c now input
       = py_discoverPackages python c now
           \<lparr>d_language = s_language input, d_searchTerm = Some (s_query input),
            d_includeDevDependencies = True, d_maxResults = s_maxResults input\<rparr>
   \<and> rust_searchAffordances rust c now input
       = rust_discoverPackages rust c now
           \<lparr>d_language = s_language input, d_searchTerm = Some (s_query input),
            d_includeDevDependencies = True, d_maxResults = s_maxResults input\<rparr>
   \<and> go_searchAffordances go c now input
       = go_discoverPackages go c now
           \<lparr>d_language = s_language input, d_searchTerm = Some (s_query input),
            d_includeDevDependencies = True, d_maxResults = s_maxResults input\<rparr>
   \<and> java_searchAffordances java c now input
       = java_discoverPackages java c now
           \<lparr>d_language = s_language input, d_searchTerm = Some (s_query input),
            d_includeDevDependencies = True, d_maxResults = s_maxResults input\<rparr>"
  using js_search_ranks_candidates [of c now input node candidates]
    enhance_annotates [of "s_query input" pkg] enhance_empty_query [of pkg]
  by (simp add: py_searchAffordances_def rust_searchAffordances_def go_searchAffordances_def
      java_searchAffordances_def delegated_input_def)

lemma cache_get_empty_cache: "cache_get empty_cache now k = (None, empty_cache)"
  by (simp add: cache_get_def empty_cache_def new_CacheManager_def Map_get_def)

lemma app_discovery:
  "fst (js_discoverPackages app_env empty_cache 0 (all_packages_input JavaScript 1000))
     = Discovery app_candidates"
  by code_simp

theorem searchAffordances_ranks_in_javascript_and_delegates_elsewhere_witness:
  "(\<exists>c'. js_searchAffordances app_env empty_cache 0 http_client_search
          = Inr (Discovery
                   \<lparr>dr_packages =
                       rank ''http client''
                         (map (\<lambda>pkg. enhancePackageInfo pkg ''http client'') (dr_packages app_candidates))
                         ''network'' 5,
                    dr_totalFound =
                       length (rank ''http client''
                         (map (\<lambda>pkg. enhancePackageInfo pkg ''http client'') (dr_packages app_candidates))
                         ''network'' 5),
                    dr_searchTerm = Some ''http client'',
                    dr_language = JavaScript,
                    dr_timestamp = 0\<rparr>, c'))
   \<and> enhancePackageInfo axios_record ''http client'' = annotate ''http client'' axios_record
   \<and> rust_searchAffordances rust_env empty_cache 0 serialization_search
       = rust_discoverPackages rust_env empty_cache 0
           \<lparr>d_language = Rust, d_searchTerm = Some ''serialization'',
            d_includeDevDependencies = True, d_maxResults = 20\<rparr>"
  using searchAffordances_ranks_in_javascript_and_delegates_elsewhere
          [of empty_cache 0 http_client_search app_env app_candidates axios_record py_env rust_env
              go_env java_env]
        searchAffordances_ranks_in_javascript_and_delegates_elsewhere
          [of empty_cache 0 serialization_search app_env app_candidates axios_record py_env rust_env
              go_env java_env]
        app_discovery
  by (simp add: cache_miss_empty_cache cache_get_empty_cache http_client_search_def
      serialization_search_def)

lemma serde_discovery:
  "packages_of (fst (rust_discoverPackages serde_env empty_cache 0 (all_packages_input Rust 1000)))
     = Some [serde_record]"
  by code_simp

lemma serde_search:
  "packages_of (fst (rust_searchAffordances serde_env empty_cache 0 serialization_search)) = Some []"
  by code_simp

lemma serde_score: "reference_score ''serialization'' serde_record = 10"
  by code_simp

lemma score_ignores_annotation: "reference_score q (annotate q' r) = reference_score q r"
  by (simp add: reference_score_def annotate_def)

text \<open>
  C8 fails as stated. In a Rust crate that declares \<open>serde\<close>, the specified procedure for
  the query \<open>serialization\<close> returns that crate, annotated (its score is 10), while the Rust
  engine's \<open>searchAffordances\<close> returns nothing: it asks \<open>discoverPackages\<close> for the
  names that contain the query.
\<close>

theorem rust_searchAffordances_does_not_rank:
  "packages_of (fst (rust_searchAffordances serde_env empty_cache 0 serialization_search)) = Some []
   \<and> specified_search (rust_discoverPackages serde_env empty_cache 0) 1000 serialization_search
       = Some [annotate ''serialization'' serde_record]"
proof -
  have "rank ''serialization'' [annotate ''serialization'' serde_record] ''all'' 20
          = [annotate ''serialization'' serde_record]"
    by (simp add: rank_def score_ignores_annotation serde_score in_category_def)
  then have "specified_search (rust_discoverPackages serde_env empty_cache 0) 1000 serialization_search
          = Some [annotate ''serialization'' serde_record]"
    using serde_discovery by (simp add: specified_search_def serialization_search_def)
  then show ?thesis using serde_search by simp
qed

section \<open>Properties of the cache keys\<close>
















lemma bool_str_inj:
  "(if b then ''true'' else ''false'') = (if b' then ''true'' else ''false'') \<Longrightarrow> b = b'"
  by (cases b; cases b') simp_all

lemma bool_str_colon_free: "colon_free (if b then ''true'' else ''false'')"
  by (simp add: colon_free_def)






















end
